theory Spec2Isabelle
  imports Main
begin

section \<open>Shared data model (analyzers/base.py)\<close>

text \<open>
  Python values that an \<open>ast.Constant\<close> node can carry. Strings, integers, booleans and
  \<open>None\<close> are kept as they are; a literal of another type (float, complex, Ellipsis) is
  given by the name of its type, the text \<open>str()\<close> prints for it and its truth value,
  which is all the analyzers ask of it. Bytes literals are not part of the model.
\<close>

datatype pyconst =
    CNone
  | CBool bool
  | CInt int
  | CStr string
  | COther string string bool

text \<open>Python truthiness of a constant (\<open>if x\<close>, \<open>x and y\<close>, \<open>x or y\<close>).\<close>

fun truthy :: "pyconst \<Rightarrow> bool" where
  "truthy CNone = False"
| "truthy (CBool b) = b"
| "truthy (CInt i) = (i \<noteq> 0)"
| "truthy (CStr s) = (s \<noteq> [])"
| "truthy (COther t s b) = b"

text \<open>\<open>str(n)\<close> for a Python integer: decimal digits, a leading minus sign when negative.\<close>

fun str_nat :: "nat \<Rightarrow> string" where
  "str_nat n =
     (if n < 10 then [''0123456789'' ! n]
      else str_nat (n div 10) @ [''0123456789'' ! (n mod 10)])"

definition str_int :: "int \<Rightarrow> string" where
  "str_int i = (if i < 0 then CHR ''-'' # str_nat (nat (- i)) else str_nat (nat i))"

text \<open>\<open>str(value)\<close> of a constant's value.\<close>

fun py_str :: "pyconst \<Rightarrow> string" where
  "py_str CNone = ''None''"
| "py_str (CBool b) = (if b then ''True'' else ''False'')"
| "py_str (CInt i) = str_int i"
| "py_str (CStr s) = s"
| "py_str (COther t s b) = s"

text \<open>The Python test \<open>needle in hay\<close> on strings: \<open>needle\<close> occurs as a contiguous run.\<close>

fun starts_with :: "string \<Rightarrow> string \<Rightarrow> bool" where
  "starts_with [] hay = True"
| "starts_with (c # cs) [] = False"
| "starts_with (c # cs) (h # hs) = (c = h \<and> starts_with cs hs)"

fun py_in :: "string \<Rightarrow> string \<Rightarrow> bool" where
  "py_in needle [] = (needle = [])"
| "py_in needle (h # hs) = (starts_with needle (h # hs) \<or> py_in needle hs)"

text \<open>\<open>str.upper()\<close> on ASCII text: the letters a..z go to A..Z, every other byte stays.\<close>

definition upper_char :: "char \<Rightarrow> char" where
  "upper_char c =
     (if 97 \<le> (of_char c :: nat) \<and> (of_char c :: nat) \<le> 122
      then char_of ((of_char c :: nat) - 32) else c)"

definition upper :: "string \<Rightarrow> string" where
  "upper s = map upper_char s"

record EndpointParameter =
  name :: string
  param_type :: string
  data_type :: string
  required :: bool
  default :: "string option"
  description_p :: "string option"

text \<open>
  \<open>EndpointInfo\<close>. Python does not enforce the annotated field types, and the single-pass
  extractor stores literal values of the source as they are in \<open>path\<close>, \<open>tags\<close> and
  \<open>status_code\<close>; these fields therefore hold constants.
\<close>

record EndpointInfo =
  path :: pyconst
  "method" :: string
  function_name :: string
  summary :: "string option"
  description :: "string option"
  parameters :: "EndpointParameter list"
  request_model :: "string option"
  response_model :: "string option"
  tags :: "pyconst list"
  status_code :: pyconst
  file_path :: string
  line_number :: int


text \<open>Exceptions, with the message that \<open>str(e)\<close> prints.\<close>

datatype error =
    SyntaxError string
  | IndexError string
  | AttributeError string
  | OSError string
  | OtherError string

fun str_error :: "error \<Rightarrow> string" where
  "str_error (SyntaxError m) = m"
| "str_error (IndexError m) = m"
| "str_error (AttributeError m) = m"
| "str_error (OSError m) = m"
| "str_error (OtherError m) = m"

text \<open>\<open>xs[i]\<close> for an index that the code has checked to be non-negative.\<close>

definition py_index :: "'a list \<Rightarrow> int \<Rightarrow> error + 'a" where
  "py_index xs i =
     (if 0 \<le> i \<and> i < int (length xs) then Inr (xs ! nat i)
      else Inl (IndexError ''list index out of range''))"

subsection \<open>The fragment of Python's syntax tree that the analyzers inspect\<close>

datatype expr =
    Name string
  | Constant pyconst
  | Attribute expr string
  | Call expr "expr list" "(string option \<times> expr) list"
  | List_e "expr list"
  | Subscript expr expr
  | OtherExpr string

type_synonym keyword = "string option \<times> expr"

record py_arg =
  arg :: string
  annotation :: "expr option"

record arguments =
  args :: "py_arg list"
  defaults :: "expr list"

text \<open>
  A function definition. \<open>docstring\<close> is what \<open>ast.get_docstring\<close> returns for the node.
\<close>

record funcdef =
  func_name :: string
  func_args :: arguments
  decorator_list :: "expr list"
  returns :: "expr option"
  lineno :: int
  docstring :: "string option"

datatype stmt =
    FunctionDef funcdef
  | ClassDef string "expr list" "stmt list" int "string option"
  | Assign "expr list" expr
  | AnnAssign expr
  | OtherStmt

text \<open>
  A source file found by \<open>rglob("*.py")\<close>: \<open>full_path\<close> is \<open>str(file_path)\<close>,
  \<open>file_name\<close> is \<open>file_path.name\<close>, \<open>rel_path\<close> is the path relative to the project
  root. \<open>parsed\<close> is the outcome of opening, reading and \<open>ast.parse\<close>: the exception
  raised, or the statement nodes of the tree in the order \<open>ast.walk\<close> yields them.
  \<open>url_text\<close> is the outcome of \<open>read_text\<close> followed by the two regular-expression
  scans of the routing pass: the exception raised by the read, or the capture groups
  (1, 2) of the successive matches of the router pattern and of the path pattern.
\<close>

record source_file =
  full_path :: string
  file_name :: string
  rel_path :: string
  parsed :: "error + stmt list"
  url_text :: "error + ((string \<times> string) list \<times> (string \<times> string) list)"

text \<open>
  The state of an analyzer object (\<open>BaseAnalyzer\<close>): the endpoint list, and the lines the
  run has printed.
\<close>

record analyzer_state =
  endpoints :: "EndpointInfo list"
  printed :: "string list"

definition skip_patterns :: "string list" where
  "skip_patterns =
     [''__pycache__'', ''venv'', ''env'', ''.venv'', ''.git'', ''test_'', ''tests'', ''migrations'']"

definition should_skip_file :: "source_file \<Rightarrow> bool" where
  "should_skip_file f = list_ex (\<lambda>pattern. py_in pattern (full_path f)) skip_patterns"

text \<open>ASCII white space, as \<open>str.strip()\<close> and \<open>\s\<close> see it.\<close>

definition is_space :: "char \<Rightarrow> bool" where
  "is_space c = ((of_char c :: nat) \<in> {9, 10, 11, 12, 13, 28, 29, 30, 31, 32})"

definition strip :: "string \<Rightarrow> string" where
  "strip s = rev (dropWhile is_space (rev (dropWhile is_space s)))"

text \<open>\<open>s.split(sep)\<close> for a one-character separator, and \<open>sep.join(lines)\<close>.\<close>

fun split_on :: "char \<Rightarrow> string \<Rightarrow> string list" where
  "split_on sep [] = [] # []"
| "split_on sep (c # cs) =
     (if c = sep then [] # split_on sep cs
      else (case split_on sep cs of
              [] \<Rightarrow> [c] # []
            | l # ls \<Rightarrow> (c # l) # ls))"

fun join_with :: "char \<Rightarrow> string list \<Rightarrow> string" where
  "join_with sep [] = []"
| "join_with sep [l] = l"
| "join_with sep (l # m # ls) = l @ sep # join_with sep (m # ls)"

text \<open>
  \<open>_parse_docstring\<close>. The argument is \<open>None\<close> or a string; both \<open>None\<close> and the empty
  string are falsy.
\<close>

definition parse_docstring :: "string option \<Rightarrow> string option \<times> string option" where
  "parse_docstring d =
     (case d of
        None \<Rightarrow> (None, None)
      | Some s \<Rightarrow>
          if s = [] then (None, None)
          else
            (let lines = split_on CHR 0x0A (strip s);
                 summary = (if lines \<noteq> [] then Some (hd lines) else None);
                 description =
                   (if length lines > 1 then Some (strip (join_with CHR 0x0A (tl lines)))
                    else None)
             in (summary, description)))"

section \<open>Single-pass extractor (analyzers/fastapi_analyzer.py)\<close>

text \<open>
  \<open>ast.unparse\<close> is a function of the Python library; the extractor's functions that call
  it take it as the parameter \<open>unparse\<close>.
\<close>

definition http_methods :: "string list" where
  "http_methods = [''get'', ''post'', ''put'', ''delete'', ''patch'', ''options'', ''head'']"

text \<open>\<open>_parse_decorator\<close>: the pair (method, path), or (None, None).\<close>

fun parse_decorator :: "expr \<Rightarrow> string list \<Rightarrow> string option \<times> pyconst option" where
  "parse_decorator (Call (Attribute v m) (Constant p # rest) kws) ms =
     (if m \<in> set ms then (Some m, Some p) else (None, None))"
| "parse_decorator d ms = (None, None)"

text \<open>The test \<open>if method and path\<close> on the pair that \<open>_parse_decorator\<close> returns.\<close>

fun method_and_path :: "string option \<times> pyconst option \<Rightarrow> bool" where
  "method_and_path (Some m, Some p) = (m \<noteq> [] \<and> truthy p)"
| "method_and_path mp = False"

text \<open>\<open>_get_type_string\<close>\<close>

fun get_type_string :: "(expr \<Rightarrow> string) \<Rightarrow> expr \<Rightarrow> string" where
  "get_type_string unparse (Name ident) = ident"
| "get_type_string unparse (Subscript v sl) = unparse (Subscript v sl)"
| "get_type_string unparse (Attribute v a) = unparse (Attribute v a)"
| "get_type_string unparse e = ''Any''"

text \<open>
  The body of the loop of \<open>_extract_parameters\<close> for the argument \<open>a\<close> at position \<open>i\<close>
  (an argument that is not \<open>self\<close> or \<open>cls\<close>): the parameter record appended, or the
  exception raised by the read of \<open>defaults\<close>.
\<close>

definition extract_parameter ::
  "(expr \<Rightarrow> string) \<Rightarrow> nat \<Rightarrow> expr list \<Rightarrow> nat \<Rightarrow> py_arg \<Rightarrow> error + EndpointParameter" where
  "extract_parameter unparse num_args dflts i a =
     (let default_offset = int i - (int num_args - int (length dflts));
          r = (if default_offset \<ge> 0 then
                 (case py_index dflts default_offset of
                    Inl e \<Rightarrow> Inl e
                  | Inr default_node \<Rightarrow>
                      Inr (False,
                        Some (case default_node of
                                Constant v \<Rightarrow> (if v \<noteq> CNone then py_str v else ''None'')
                              | _ \<Rightarrow> unparse default_node)))
               else Inr (True, None))
      in case r of
           Inl e \<Rightarrow> Inl e
         | Inr (req, default_value) \<Rightarrow>
             (let (ptype, dtype) =
                    (case annotation a of
                       None \<Rightarrow> (''query'', ''string'')
                     | Some ann \<Rightarrow>
                         (let type_str = get_type_string unparse ann
                          in ((if py_in ''Path'' type_str then ''path''
                               else if py_in ''Body'' type_str then ''body''
                               else if py_in ''Header'' type_str then ''header''
                               else ''query''), type_str)))
              in Inr \<lparr> name = arg a, param_type = ptype, data_type = dtype,
                       required = req, default = default_value, description_p = None \<rparr>))"

text \<open>The loop of \<open>_extract_parameters\<close> over \<open>enumerate(args)\<close>.\<close>

fun extract_parameters_loop ::
  "(expr \<Rightarrow> string) \<Rightarrow> nat \<Rightarrow> expr list \<Rightarrow> (nat \<times> py_arg) list
     \<Rightarrow> error + EndpointParameter list" where
  "extract_parameters_loop unparse num_args dflts [] = Inr []"
| "extract_parameters_loop unparse num_args dflts ((i, a) # rest) =
     (if arg a \<in> set [''self'', ''cls''] then extract_parameters_loop unparse num_args dflts rest
      else
        (case extract_parameter unparse num_args dflts i a of
           Inl e \<Rightarrow> Inl e
         | Inr p \<Rightarrow>
             (case extract_parameters_loop unparse num_args dflts rest of
                Inl e \<Rightarrow> Inl e
              | Inr ps \<Rightarrow> Inr (p # ps))))"

definition extract_parameters ::
  "(expr \<Rightarrow> string) \<Rightarrow> funcdef \<Rightarrow> error + EndpointParameter list" where
  "extract_parameters unparse func_node =
     (let as = args (func_args func_node);
          dflts = defaults (func_args func_node)
      in extract_parameters_loop unparse (length as) dflts (enumerate 0 as))"

text \<open>\<open>str.isupper()\<close> of one ASCII character.\<close>

definition isupper_char :: "char \<Rightarrow> bool" where
  "isupper_char c = (65 \<le> (of_char c :: nat) \<and> (of_char c :: nat) \<le> 90)"

text \<open>The keywords of a decorator that is a call; no keywords otherwise.\<close>

fun call_keywords :: "expr \<Rightarrow> keyword list" where
  "call_keywords (Call f as kws) = kws"
| "call_keywords e = []"

text \<open>\<open>_extract_models\<close>: the pair (request_model, response_model).\<close>

fun response_model_loop ::
  "(expr \<Rightarrow> string) \<Rightarrow> keyword list \<Rightarrow> string option \<Rightarrow> string option" where
  "response_model_loop unparse [] rm = rm"
| "response_model_loop unparse ((k, v) # kws) rm =
     response_model_loop unparse kws
       (if k = Some ''response_model'' then Some (get_type_string unparse v) else rm)"

fun request_model_loop :: "(expr \<Rightarrow> string) \<Rightarrow> py_arg list \<Rightarrow> string option" where
  "request_model_loop unparse [] = None"
| "request_model_loop unparse (a # rest) =
     (case annotation a of
        None \<Rightarrow> request_model_loop unparse rest
      | Some ann \<Rightarrow>
          (let type_str = get_type_string unparse ann
           in if type_str \<noteq> [] \<and> isupper_char (hd type_str)
                 \<and> \<not> py_in ''Path'' type_str \<and> \<not> py_in ''Query'' type_str
              then Some type_str
              else request_model_loop unparse rest))"

definition extract_models ::
  "(expr \<Rightarrow> string) \<Rightarrow> funcdef \<Rightarrow> expr \<Rightarrow> string option \<times> string option" where
  "extract_models unparse func_node decorator =
     (let response0 = map_option (get_type_string unparse) (returns func_node);
          response = response_model_loop unparse (call_keywords decorator) response0;
          request = request_model_loop unparse (args (func_args func_node))
      in (request, response))"

text \<open>\<open>_extract_tags\<close>\<close>

fun constant_values :: "expr list \<Rightarrow> pyconst list" where
  "constant_values [] = []"
| "constant_values (Constant v # es) = v # constant_values es"
| "constant_values (e # es) = constant_values es"

fun extract_tags_loop :: "keyword list \<Rightarrow> pyconst list" where
  "extract_tags_loop [] = []"
| "extract_tags_loop ((k, v) # kws) =
     (if k = Some ''tags'' then
        (case v of
           List_e elts \<Rightarrow> constant_values elts @ extract_tags_loop kws
         | _ \<Rightarrow> extract_tags_loop kws)
      else extract_tags_loop kws)"

definition extract_tags :: "expr \<Rightarrow> pyconst list" where
  "extract_tags decorator = extract_tags_loop (call_keywords decorator)"

text \<open>\<open>_extract_status_code\<close>: the value of the first literal \<open>status_code\<close> keyword.\<close>

fun extract_status_code_loop :: "keyword list \<Rightarrow> pyconst option" where
  "extract_status_code_loop [] = None"
| "extract_status_code_loop ((k, v) # kws) =
     (if k = Some ''status_code'' then
        (case v of
           Constant c \<Rightarrow> Some c
         | _ \<Rightarrow> extract_status_code_loop kws)
      else extract_status_code_loop kws)"

definition extract_status_code :: "expr \<Rightarrow> pyconst option" where
  "extract_status_code decorator = extract_status_code_loop (call_keywords decorator)"

text \<open>\<open>x or 200\<close> for the optional constant that \<open>_extract_status_code\<close> returns.\<close>

fun or_200 :: "pyconst option \<Rightarrow> pyconst" where
  "or_200 None = CInt 200"
| "or_200 (Some c) = (if truthy c then c else CInt 200)"

text \<open>
  The endpoint that \<open>_extract_endpoint_from_function\<close> builds from a matching decorator.
\<close>

definition build_endpoint ::
  "(expr \<Rightarrow> string) \<Rightarrow> funcdef \<Rightarrow> string \<Rightarrow> expr \<Rightarrow> string \<Rightarrow> pyconst
     \<Rightarrow> error + EndpointInfo" where
  "build_endpoint unparse func_node rel decorator m p =
     (let ds = (case docstring func_node of None \<Rightarrow> [] | Some s \<Rightarrow> s);
          (summ, descr) = parse_docstring (Some ds)
      in case extract_parameters unparse func_node of
           Inl e \<Rightarrow> Inl e
         | Inr params \<Rightarrow>
             (let (request, response) = extract_models unparse func_node decorator;
                  tgs = extract_tags decorator;
                  status = or_200 (extract_status_code decorator)
              in Inr \<lparr> path = p, method = upper m, function_name = func_name func_node,
                       summary = summ, description = descr, parameters = params,
                       request_model = request, response_model = response,
                       tags = tgs, status_code = status, file_path = rel,
                       line_number = lineno func_node \<rparr>))"

text \<open>The loop of \<open>_extract_endpoint_from_function\<close> over the decorator list.\<close>

fun extract_endpoint_loop ::
  "(expr \<Rightarrow> string) \<Rightarrow> funcdef \<Rightarrow> string \<Rightarrow> expr list \<Rightarrow> error + EndpointInfo option" where
  "extract_endpoint_loop unparse func_node rel [] = Inr None"
| "extract_endpoint_loop unparse func_node rel (decorator # rest) =
     (case parse_decorator decorator http_methods of
        (Some m, Some p) \<Rightarrow>
          (if method_and_path (Some m, Some p) then
             (case build_endpoint unparse func_node rel decorator m p of
                Inl e \<Rightarrow> Inl e
              | Inr ep \<Rightarrow> Inr (Some ep))
           else extract_endpoint_loop unparse func_node rel rest)
      | _ \<Rightarrow> extract_endpoint_loop unparse func_node rel rest)"

definition extract_endpoint_from_function ::
  "(expr \<Rightarrow> string) \<Rightarrow> funcdef \<Rightarrow> string \<Rightarrow> error + EndpointInfo option" where
  "extract_endpoint_from_function unparse func_node rel =
     extract_endpoint_loop unparse func_node rel (decorator_list func_node)"

text \<open>
  \<open>_analyze_file\<close>: the loop over the nodes of \<open>ast.walk\<close>, inside the \<open>try\<close>. An exception
  ends the loop; the handler prints one line and the endpoints appended so far stay.
\<close>

definition error_line :: "string \<Rightarrow> source_file \<Rightarrow> error \<Rightarrow> string" where
  "error_line what f e = what @ full_path f @ '': '' @ str_error e"

fun analyze_nodes ::
  "(expr \<Rightarrow> string) \<Rightarrow> source_file \<Rightarrow> stmt list \<Rightarrow> analyzer_state \<Rightarrow> analyzer_state" where
  "analyze_nodes unparse f [] s = s"
| "analyze_nodes unparse f (FunctionDef func_node # rest) s =
     (case extract_endpoint_from_function unparse func_node (rel_path f) of
        Inl e \<Rightarrow> s\<lparr>printed := printed s @ [error_line ''Error analyzing '' f e]\<rparr>
      | Inr None \<Rightarrow> analyze_nodes unparse f rest s
      | Inr (Some ep) \<Rightarrow> analyze_nodes unparse f rest (s\<lparr>endpoints := endpoints s @ [ep]\<rparr>))"
| "analyze_nodes unparse f (node # rest) s = analyze_nodes unparse f rest s"

definition analyze_file ::
  "(expr \<Rightarrow> string) \<Rightarrow> source_file \<Rightarrow> analyzer_state \<Rightarrow> analyzer_state" where
  "analyze_file unparse f s =
     (case parsed f of
        Inl e \<Rightarrow> s\<lparr>printed := printed s @ [error_line ''Error analyzing '' f e]\<rparr>
      | Inr nodes \<Rightarrow> analyze_nodes unparse f nodes s)"

text \<open>
  \<open>FastAPIAnalyzer.analyze\<close> on the files that \<open>rglob\<close> lists: the state of the analyzer
  after the call; the value returned is its \<open>endpoints\<close>.
\<close>

fun analyze_files ::
  "(expr \<Rightarrow> string) \<Rightarrow> source_file list \<Rightarrow> analyzer_state \<Rightarrow> analyzer_state" where
  "analyze_files unparse [] s = s"
| "analyze_files unparse (f # fs) s =
     (if should_skip_file f then analyze_files unparse fs s
      else analyze_files unparse fs (analyze_file unparse f s))"

definition fastapi_analyze ::
  "(expr \<Rightarrow> string) \<Rightarrow> source_file list \<Rightarrow> analyzer_state \<Rightarrow> analyzer_state" where
  "fastapi_analyze unparse python_files s =
     analyze_files unparse python_files (s\<lparr>endpoints := []\<rparr>)"

section \<open>Multi-pass extractor (analyzers/django_analyzer.py)\<close>

text \<open>The name of a constant's type, as it appears in Python's error messages.\<close>

fun type_name :: "pyconst \<Rightarrow> string" where
  "type_name CNone = ''NoneType''"
| "type_name (CBool b) = ''bool''"
| "type_name (CInt i) = ''int''"
| "type_name (CStr s) = ''str''"
| "type_name (COther t s b) = t"

text \<open>\<open>m.upper()\<close> on a constant's value: only a string has the method.\<close>

fun const_upper :: "pyconst \<Rightarrow> error + string" where
  "const_upper (CStr s) = Inr (upper s)"
| "const_upper c =
     Inl (AttributeError ([CHR 0x27] @ type_name c @ [CHR 0x27] @ '' object has no attribute ''
            @ [CHR 0x27] @ ''upper'' @ [CHR 0x27]))"

text \<open>
  \<open>str.title()\<close> on ASCII text: a letter that follows a letter is lowercased, any other
  letter is uppercased.
\<close>

definition islower_char :: "char \<Rightarrow> bool" where
  "islower_char c = (97 \<le> (of_char c :: nat) \<and> (of_char c :: nat) \<le> 122)"

definition lower_char :: "char \<Rightarrow> char" where
  "lower_char c = (if isupper_char c then char_of ((of_char c :: nat) + 32) else c)"

fun title_loop :: "bool \<Rightarrow> string \<Rightarrow> string" where
  "title_loop previous_is_cased [] = []"
| "title_loop previous_is_cased (c # cs) =
     (if islower_char c then
        (if previous_is_cased then c else upper_char c) # title_loop True cs
      else if isupper_char c then
        (if previous_is_cased then lower_char c else c) # title_loop True cs
      else c # title_loop False cs)"

definition title :: "string \<Rightarrow> string" where
  "title s = title_loop False s"

text \<open>The scratch records of one run, Python dictionaries in the source.\<close>

record serializer_info =
  s_fields :: "string list"
  s_file :: string

record custom_action =
  ca_name :: string
  ca_methods :: "pyconst list"
  ca_detail :: pyconst
  ca_docstring :: "string option"
  ca_line :: int

record method_info =
  mi_method :: string
  mi_docstring :: "string option"
  mi_line :: int

text \<open>
  An entry of \<open>self.viewsets\<close>. A viewset entry has the keys \<open>serializer\<close>, \<open>actions\<close> and
  \<open>custom_actions\<close>; the entry of a class-based or function-based view has the key
  \<open>methods\<close> instead. A key that the entry does not have is \<open>None\<close> here. The key
  \<open>queryset\<close>, which is always \<open>None\<close> and never read, is left out.
\<close>

record view_info =
  v_name :: string
  v_file :: string
  v_line :: int
  v_docstring :: "string option"
  v_serializer :: "string option"
  v_actions :: "string list option"
  v_custom_actions :: "custom_action list option"
  v_methods :: "method_info list option"

datatype url_pattern =
    Router string string string
  | Path string string string

text \<open>The state of a \<open>DjangoAnalyzer\<close> object.\<close>

record django_state = analyzer_state +
  url_patterns :: "url_pattern list"
  viewsets :: "string \<rightharpoonup> view_info"
  serializers :: "string \<rightharpoonup> serializer_info"

text \<open>\<open>__init__\<close>\<close>

definition django_init :: django_state where
  "django_init =
     \<lparr> endpoints = [], printed = [], url_patterns = [], viewsets = Map.empty,
       serializers = Map.empty \<rparr>"

subsection \<open>First pass: serializers\<close>

definition is_serializer_class :: "(expr \<Rightarrow> string) \<Rightarrow> expr list \<Rightarrow> bool" where
  "is_serializer_class unparse bases = list_ex (\<lambda>base. py_in ''Serializer'' (unparse base)) bases"

fun name_ids :: "expr list \<Rightarrow> string list" where
  "name_ids [] = []"
| "name_ids (Name ident # es) = ident # name_ids es"
| "name_ids (e # es) = name_ids es"

fun extract_serializer_fields :: "stmt list \<Rightarrow> string list" where
  "extract_serializer_fields [] = []"
| "extract_serializer_fields (Assign targets v # items) =
     name_ids targets @ extract_serializer_fields items"
| "extract_serializer_fields (AnnAssign (Name ident) # items) =
     ident # extract_serializer_fields items"
| "extract_serializer_fields (item # items) = extract_serializer_fields items"

fun serializer_nodes ::
  "(expr \<Rightarrow> string) \<Rightarrow> source_file \<Rightarrow> stmt list \<Rightarrow> django_state \<Rightarrow> django_state" where
  "serializer_nodes unparse f [] s = s"
| "serializer_nodes unparse f (ClassDef cname bases body line doc # rest) s =
     (if is_serializer_class unparse bases then
        serializer_nodes unparse f rest
          (s\<lparr>serializers := (serializers s)(cname \<mapsto>
               \<lparr> s_fields = extract_serializer_fields body, s_file = rel_path f \<rparr>)\<rparr>)
      else serializer_nodes unparse f rest s)"
| "serializer_nodes unparse f (node # rest) s = serializer_nodes unparse f rest s"

definition extract_serializers ::
  "(expr \<Rightarrow> string) \<Rightarrow> source_file \<Rightarrow> django_state \<Rightarrow> django_state" where
  "extract_serializers unparse f s =
     (case parsed f of
        Inl e \<Rightarrow> s\<lparr>printed := printed s @ [error_line ''Error extracting serializers from '' f e]\<rparr>
      | Inr nodes \<Rightarrow> serializer_nodes unparse f nodes s)"

subsection \<open>Second pass: viewsets, class-based views and function-based views\<close>

datatype view_type = viewset | apiview

fun get_view_type :: "(expr \<Rightarrow> string) \<Rightarrow> expr list \<Rightarrow> view_type option" where
  "get_view_type unparse [] = None"
| "get_view_type unparse (base # bases) =
     (let base_name = unparse base
      in if py_in ''ViewSet'' base_name then Some viewset
         else if py_in ''APIView'' base_name \<or> py_in ''GenericAPIView'' base_name then Some apiview
         else get_view_type unparse bases)"

text \<open>
  \<open>_get_serializer_class\<close>: the first assignment to \<open>serializer_class\<close> whose value is
  a name.
\<close>

fun get_serializer_class :: "stmt list \<Rightarrow> string option" where
  "get_serializer_class [] = None"
| "get_serializer_class (Assign targets (Name ident) # items) =
     (if list_ex (\<lambda>t. t = Name ''serializer_class'') targets then Some ident
      else get_serializer_class items)"
| "get_serializer_class (item # items) = get_serializer_class items"

definition standard_actions :: "string list" where
  "standard_actions =
     [''list'', ''retrieve'', ''create'', ''update'', ''partial_update'', ''destroy'']"

fun extract_viewset_actions :: "stmt list \<Rightarrow> string list" where
  "extract_viewset_actions [] = []"
| "extract_viewset_actions (FunctionDef item # items) =
     (if func_name item \<in> set standard_actions
      then func_name item # extract_viewset_actions items
      else extract_viewset_actions items)"
| "extract_viewset_actions (item # items) = extract_viewset_actions items"

fun is_action_decorator :: "expr \<Rightarrow> bool" where
  "is_action_decorator (Call (Name ident) as kws) = (ident = ''action'')"
| "is_action_decorator (Name ident) = (ident = ''action'')"
| "is_action_decorator e = False"

text \<open>
  The loop of \<open>_parse_action_decorator\<close> over the keywords, on the pair (methods, detail).
\<close>

fun action_keywords :: "keyword list \<Rightarrow> pyconst list \<times> pyconst \<Rightarrow> pyconst list \<times> pyconst" where
  "action_keywords [] md = md"
| "action_keywords ((k, v) # kws) (ms, detail) =
     action_keywords kws
       (if k = Some ''methods'' then
          (case v of List_e elts \<Rightarrow> (constant_values elts, detail) | _ \<Rightarrow> (ms, detail))
        else if k = Some ''detail'' then
          (case v of Constant c \<Rightarrow> (ms, c) | _ \<Rightarrow> (ms, detail))
        else (ms, detail))"

fun parse_action_decorator :: "expr \<Rightarrow> funcdef \<Rightarrow> custom_action option" where
  "parse_action_decorator (Call f as kws) func =
     (let (ms, detail) = action_keywords kws ([CStr ''get''], CBool False)
      in Some \<lparr> ca_name = func_name func, ca_methods = ms, ca_detail = detail,
                ca_docstring = docstring func, ca_line = lineno func \<rparr>)"
| "parse_action_decorator e func = None"

fun custom_actions_of_decorators :: "expr list \<Rightarrow> funcdef \<Rightarrow> custom_action list" where
  "custom_actions_of_decorators [] item = []"
| "custom_actions_of_decorators (decorator # rest) item =
     (if is_action_decorator decorator then
        (case parse_action_decorator decorator item of
           Some action_info \<Rightarrow> action_info # custom_actions_of_decorators rest item
         | None \<Rightarrow> custom_actions_of_decorators rest item)
      else custom_actions_of_decorators rest item)"

fun extract_custom_actions :: "stmt list \<Rightarrow> custom_action list" where
  "extract_custom_actions [] = []"
| "extract_custom_actions (FunctionDef item # items) =
     custom_actions_of_decorators (decorator_list item) item @ extract_custom_actions items"
| "extract_custom_actions (item # items) = extract_custom_actions items"

text \<open>\<open>_extract_viewset\<close>: the entry stored under the class name.\<close>

definition extract_viewset ::
  "string \<Rightarrow> stmt list \<Rightarrow> int \<Rightarrow> string option \<Rightarrow> source_file \<Rightarrow> view_info" where
  "extract_viewset cname body line doc f =
     \<lparr> v_name = cname, v_file = rel_path f, v_line = line, v_docstring = doc,
       v_serializer = get_serializer_class body,
       v_actions = Some (extract_viewset_actions body),
       v_custom_actions = Some (extract_custom_actions body),
       v_methods = None \<rparr>"

definition apiview_http_methods :: "string list" where
  "apiview_http_methods = [''get'', ''post'', ''put'', ''patch'', ''delete'', ''head'', ''options'']"

fun extract_apiview_methods :: "stmt list \<Rightarrow> method_info list" where
  "extract_apiview_methods [] = []"
| "extract_apiview_methods (FunctionDef item # items) =
     (if func_name item \<in> set apiview_http_methods
      then \<lparr> mi_method = upper (func_name item), mi_docstring = docstring item,
             mi_line = lineno item \<rparr> # extract_apiview_methods items
      else extract_apiview_methods items)"
| "extract_apiview_methods (item # items) = extract_apiview_methods items"

definition extract_apiview ::
  "string \<Rightarrow> stmt list \<Rightarrow> int \<Rightarrow> string option \<Rightarrow> source_file \<Rightarrow> view_info" where
  "extract_apiview cname body line doc f =
     \<lparr> v_name = cname, v_file = rel_path f, v_line = line, v_docstring = doc,
       v_serializer = None, v_actions = None, v_custom_actions = None,
       v_methods = Some (extract_apiview_methods body) \<rparr>"

fun has_api_view_decorator :: "expr list \<Rightarrow> bool" where
  "has_api_view_decorator [] = False"
| "has_api_view_decorator (Call (Name ident) as kws # rest) =
     (ident = ''api_view'' \<or> has_api_view_decorator rest)"
| "has_api_view_decorator (Name ident # rest) =
     (ident = ''api_view'' \<or> has_api_view_decorator rest)"
| "has_api_view_decorator (e # rest) = has_api_view_decorator rest"

fun parse_api_view_decorator :: "expr list \<Rightarrow> pyconst list" where
  "parse_api_view_decorator [] = []"
| "parse_api_view_decorator (Call (Name ident) (List_e elts # as) kws # rest) =
     (if ident = ''api_view'' then constant_values elts else parse_api_view_decorator rest)"
| "parse_api_view_decorator (e # rest) = parse_api_view_decorator rest"

text \<open>
  The list comprehension of \<open>_extract_function_based_view\<close>: \<open>m.upper()\<close> raises on a
  method that is not a string.
\<close>

fun fbv_methods :: "funcdef \<Rightarrow> pyconst list \<Rightarrow> error + method_info list" where
  "fbv_methods node [] = Inr []"
| "fbv_methods node (m # ms) =
     (case const_upper m of
        Inl e \<Rightarrow> Inl e
      | Inr u \<Rightarrow>
          (case fbv_methods node ms of
             Inl e \<Rightarrow> Inl e
           | Inr infos \<Rightarrow>
               Inr (\<lparr> mi_method = u, mi_docstring = docstring node, mi_line = lineno node \<rparr>
                      # infos)))"

definition extract_function_based_view :: "funcdef \<Rightarrow> source_file \<Rightarrow> error + view_info" where
  "extract_function_based_view node f =
     (let ms0 = parse_api_view_decorator (decorator_list node);
          ms = (if ms0 = [] then [CStr ''GET''] else ms0)
      in case fbv_methods node ms of
           Inl e \<Rightarrow> Inl e
         | Inr infos \<Rightarrow>
             Inr \<lparr> v_name = func_name node, v_file = rel_path f, v_line = lineno node,
                   v_docstring = docstring node, v_serializer = None, v_actions = None,
                   v_custom_actions = None, v_methods = Some infos \<rparr>)"

text \<open>
  \<open>_extract_views\<close>: the loop over the nodes of \<open>ast.walk\<close>, inside the \<open>try\<close>.
\<close>

fun view_nodes ::
  "(expr \<Rightarrow> string) \<Rightarrow> source_file \<Rightarrow> stmt list \<Rightarrow> django_state \<Rightarrow> django_state" where
  "view_nodes unparse f [] s = s"
| "view_nodes unparse f (ClassDef cname bases body line doc # rest) s =
     (case get_view_type unparse bases of
        Some viewset \<Rightarrow>
          view_nodes unparse f rest
            (s\<lparr>viewsets := (viewsets s)(cname \<mapsto> extract_viewset cname body line doc f)\<rparr>)
      | Some apiview \<Rightarrow>
          view_nodes unparse f rest
            (s\<lparr>viewsets := (viewsets s)(cname \<mapsto> extract_apiview cname body line doc f)\<rparr>)
      | None \<Rightarrow> view_nodes unparse f rest s)"
| "view_nodes unparse f (FunctionDef node # rest) s =
     (if has_api_view_decorator (decorator_list node) then
        (case extract_function_based_view node f of
           Inl e \<Rightarrow> s\<lparr>printed := printed s @ [error_line ''Error extracting views from '' f e]\<rparr>
         | Inr info \<Rightarrow>
             view_nodes unparse f rest (s\<lparr>viewsets := (viewsets s)(func_name node \<mapsto> info)\<rparr>))
      else view_nodes unparse f rest s)"
| "view_nodes unparse f (node # rest) s = view_nodes unparse f rest s"

definition extract_views ::
  "(expr \<Rightarrow> string) \<Rightarrow> source_file \<Rightarrow> django_state \<Rightarrow> django_state" where
  "extract_views unparse f s =
     (case parsed f of
        Inl e \<Rightarrow> s\<lparr>printed := printed s @ [error_line ''Error extracting views from '' f e]\<rparr>
      | Inr nodes \<Rightarrow> view_nodes unparse f nodes s)"

subsection \<open>Third pass: URL declarations\<close>

fun router_matches :: "string \<Rightarrow> (string \<times> string) list \<Rightarrow> url_pattern list" where
  "router_matches rel [] = []"
| "router_matches rel ((url_prefix, viewset_name) # ms) =
     (if viewset_name = ''basename'' then router_matches rel ms
      else Router url_prefix viewset_name rel # router_matches rel ms)"

fun path_matches :: "string \<Rightarrow> (string \<times> string) list \<Rightarrow> url_pattern list" where
  "path_matches rel [] = []"
| "path_matches rel ((url_path, view_name) # ms) =
     (if view_name \<in> set [''include'', ''path'', ''re_path'', ''name'', ''basename'']
      then path_matches rel ms
      else Path url_path view_name rel # path_matches rel ms)"

definition parse_url_patterns :: "source_file \<Rightarrow> django_state \<Rightarrow> django_state" where
  "parse_url_patterns f s =
     (case url_text f of
        Inl e \<Rightarrow>
          s\<lparr>printed := printed s @ [error_line ''Error parsing URL patterns from '' f e]\<rparr>
      | Inr (routers, paths) \<Rightarrow>
          s\<lparr>url_patterns :=
              url_patterns s @ router_matches (rel_path f) routers
                @ path_matches (rel_path f) paths\<rparr>)"

subsection \<open>Join pass\<close>

text \<open>\<open>_get_viewset_parameters\<close>\<close>

definition get_viewset_parameters :: "string \<Rightarrow> EndpointParameter list" where
  "get_viewset_parameters action =
     (if action \<in> set [''retrieve'', ''update'', ''partial_update'', ''destroy'']
      then [\<lparr> name = ''id'', param_type = ''path'', data_type = ''int'', required = True,
               default = None, description_p = None \<rparr>]
      else [])
     @ (if action = ''list''
        then [\<lparr> name = ''page'', param_type = ''query'', data_type = ''int'',
                 required = False, default = None, description_p = None \<rparr>,
              \<lparr> name = ''page_size'', param_type = ''query'', data_type = ''int'',
                 required = False, default = None, description_p = None \<rparr>]
        else [])"

text \<open>The dictionary \<open>action_mappings\<close> of \<open>_create_viewset_endpoints\<close>, in key order.\<close>

definition action_mappings :: "string \<Rightarrow> (string \<times> string \<times> string) list" where
  "action_mappings prefix =
     [(''list'', ''GET'', ''/'' @ prefix @ ''/''),
      (''create'', ''POST'', ''/'' @ prefix @ ''/''),
      (''retrieve'', ''GET'', ''/'' @ prefix @ ''/{id}/''),
      (''update'', ''PUT'', ''/'' @ prefix @ ''/{id}/''),
      (''partial_update'', ''PATCH'', ''/'' @ prefix @ ''/{id}/''),
      (''destroy'', ''DELETE'', ''/'' @ prefix @ ''/{id}/'')]"

text \<open>\<open>summary or fallback\<close>: \<open>None\<close> and the empty string are falsy.\<close>

fun summary_or :: "string option \<Rightarrow> string \<Rightarrow> string option" where
  "summary_or None fallback = Some fallback"
| "summary_or (Some s) fallback = (if s = [] then Some fallback else Some s)"

text \<open>The endpoint of a standard action, for its row (method, path) of the table.\<close>

definition standard_endpoint ::
  "string \<Rightarrow> view_info \<Rightarrow> string \<Rightarrow> string \<times> string \<Rightarrow> EndpointInfo" where
  "standard_endpoint prefix vs action row =
     (let (m, p) = row;
          (summ, descr) = parse_docstring (v_docstring vs)
      in \<lparr> path = CStr p, method = m, function_name = action,
            summary = summary_or summ (title action @ '' '' @ prefix),
            description = descr,
            parameters = get_viewset_parameters action,
            request_model = v_serializer vs,
            response_model = v_serializer vs,
            tags = [CStr (title prefix)],
            status_code = CInt (if m = ''GET'' then 200 else if m = ''POST'' then 201 else 200),
            file_path = v_file vs,
            line_number = v_line vs \<rparr>)"

text \<open>The first loop of \<open>_create_viewset_endpoints\<close>: the standard actions.\<close>

fun standard_loop :: "string \<Rightarrow> view_info \<Rightarrow> string list \<Rightarrow> EndpointInfo list" where
  "standard_loop prefix vs [] = []"
| "standard_loop prefix vs (action # rest) =
     (case map_of (action_mappings prefix) action of
        Some row \<Rightarrow> standard_endpoint prefix vs action row # standard_loop prefix vs rest
      | None \<Rightarrow> standard_loop prefix vs rest)"

definition standard_action_endpoints :: "string \<Rightarrow> view_info \<Rightarrow> EndpointInfo list" where
  "standard_action_endpoints prefix vs =
     (let actions0 = (case v_actions vs of None \<Rightarrow> [] | Some a \<Rightarrow> a);
          actions = (if actions0 = [] then map fst (action_mappings prefix) else actions0)
      in standard_loop prefix vs actions)"

text \<open>
  The second loop: the custom actions. The result is the list of endpoints appended and
  the exception, if any, that ended the loop (\<open>method.upper()\<close> on a method that is not
  a string).
\<close>

definition custom_endpoint ::
  "string \<Rightarrow> view_info \<Rightarrow> custom_action \<Rightarrow> string \<Rightarrow> EndpointInfo" where
  "custom_endpoint prefix vs ca m =
     (let path_suffix =
            (if truthy (ca_detail ca) then ''{id}/'' @ ca_name ca @ ''/'' else ca_name ca @ ''/'');
          (summ, descr) = parse_docstring (ca_docstring ca)
      in \<lparr> path = CStr (''/'' @ prefix @ ''/'' @ path_suffix), method = m,
            function_name = ca_name ca,
            summary = summary_or summ (title (ca_name ca) @ '' '' @ prefix),
            description = descr,
            parameters = [],
            request_model = None,
            response_model = None,
            tags = [CStr (title prefix)],
            status_code = CInt 200,
            file_path = v_file vs,
            line_number = ca_line ca \<rparr>)"

fun custom_methods_loop ::
  "string \<Rightarrow> view_info \<Rightarrow> custom_action \<Rightarrow> pyconst list \<Rightarrow> EndpointInfo list \<times> error option" where
  "custom_methods_loop prefix vs ca [] = ([], None)"
| "custom_methods_loop prefix vs ca (m # ms) =
     (case const_upper m of
        Inl e \<Rightarrow> ([], Some e)
      | Inr u \<Rightarrow>
          (let (eps, err) = custom_methods_loop prefix vs ca ms
           in (custom_endpoint prefix vs ca u # eps, err)))"

fun custom_actions_loop ::
  "string \<Rightarrow> view_info \<Rightarrow> custom_action list \<Rightarrow> EndpointInfo list \<times> error option" where
  "custom_actions_loop prefix vs [] = ([], None)"
| "custom_actions_loop prefix vs (ca # cas) =
     (case custom_methods_loop prefix vs ca (ca_methods ca) of
        (eps, Some e) \<Rightarrow> (eps, Some e)
      | (eps, None) \<Rightarrow>
          (let (eps', err) = custom_actions_loop prefix vs cas in (eps @ eps', err)))"

definition custom_action_endpoints ::
  "string \<Rightarrow> view_info \<Rightarrow> EndpointInfo list \<times> error option" where
  "custom_action_endpoints prefix vs =
     custom_actions_loop prefix vs (case v_custom_actions vs of None \<Rightarrow> [] | Some cas \<Rightarrow> cas)"

text \<open>
  \<open>_create_viewset_endpoints\<close>: the endpoints appended to \<open>self.endpoints\<close>, and the
  exception raised, if any.
\<close>

definition create_viewset_endpoints ::
  "string \<Rightarrow> view_info \<Rightarrow> EndpointInfo list \<times> error option" where
  "create_viewset_endpoints prefix vs =
     (let (eps, err) = custom_action_endpoints prefix vs
      in (standard_action_endpoints prefix vs @ eps, err))"

text \<open>\<open>_create_apiview_endpoints\<close>\<close>

definition apiview_endpoint :: "string \<Rightarrow> view_info \<Rightarrow> method_info \<Rightarrow> EndpointInfo" where
  "apiview_endpoint p view info =
     (let (summ, descr) = parse_docstring (v_docstring view)
      in \<lparr> path = CStr (''/'' @ p), method = mi_method info, function_name = v_name view,
            summary = summary_or summ (v_name view),
            description = descr,
            parameters = [],
            request_model = None,
            response_model = None,
            tags = [CStr ''API''],
            status_code = CInt 200,
            file_path = v_file view,
            line_number = v_line view \<rparr>)"

definition create_apiview_endpoints :: "string \<Rightarrow> view_info \<Rightarrow> EndpointInfo list" where
  "create_apiview_endpoints p view =
     map (apiview_endpoint p view) (case v_methods view of None \<Rightarrow> [] | Some ms \<Rightarrow> ms)"

text \<open>
  The body of the loop of \<open>_create_endpoints_from_patterns\<close> for one URL pattern: the
  endpoints it appends, and the exception it raises, if any.
\<close>

fun pattern_endpoints ::
  "(string \<rightharpoonup> view_info) \<Rightarrow> url_pattern \<Rightarrow> EndpointInfo list \<times> error option" where
  "pattern_endpoints views (Router prefix target file) =
     (case views target of
        Some vs \<Rightarrow> create_viewset_endpoints prefix vs
      | None \<Rightarrow> ([], None))"
| "pattern_endpoints views (Path p target file) =
     (case views target of
        Some view \<Rightarrow> (create_apiview_endpoints p view, None)
      | None \<Rightarrow> ([], None))"

text \<open>
  \<open>_create_endpoints_from_patterns\<close>: the state after the loop, and the exception that
  ended it, if any.
\<close>

fun patterns_loop :: "url_pattern list \<Rightarrow> django_state \<Rightarrow> django_state \<times> error option" where
  "patterns_loop [] s = (s, None)"
| "patterns_loop (pattern # rest) s =
     (case pattern_endpoints (viewsets s) pattern of
        (eps, Some e) \<Rightarrow> (s\<lparr>endpoints := endpoints s @ eps\<rparr>, Some e)
      | (eps, None) \<Rightarrow> patterns_loop rest (s\<lparr>endpoints := endpoints s @ eps\<rparr>))"

definition create_endpoints_from_patterns :: "django_state \<Rightarrow> django_state \<times> error option" where
  "create_endpoints_from_patterns s = patterns_loop (url_patterns s) s"

subsection \<open>\<open>DjangoAnalyzer.analyze\<close>\<close>

fun serializers_pass ::
  "(expr \<Rightarrow> string) \<Rightarrow> source_file list \<Rightarrow> django_state \<Rightarrow> django_state" where
  "serializers_pass unparse [] s = s"
| "serializers_pass unparse (f # fs) s =
     (if should_skip_file f \<or> \<not> py_in ''serializers'' (full_path f)
      then serializers_pass unparse fs s
      else serializers_pass unparse fs (extract_serializers unparse f s))"

fun views_pass ::
  "(expr \<Rightarrow> string) \<Rightarrow> source_file list \<Rightarrow> django_state \<Rightarrow> django_state" where
  "views_pass unparse [] s = s"
| "views_pass unparse (f # fs) s =
     (if should_skip_file f \<or> py_in ''admin'' (full_path f)
      then views_pass unparse fs s
      else views_pass unparse fs (extract_views unparse f s))"

fun urls_pass :: "source_file list \<Rightarrow> django_state \<Rightarrow> django_state" where
  "urls_pass [] s = s"
| "urls_pass (f # fs) s =
     (if py_in ''urls.py'' (file_name f) then urls_pass fs (parse_url_patterns f s)
      else urls_pass fs s)"

text \<open>
  \<open>analyze\<close> on the files that \<open>rglob\<close> lists, from the state \<open>s\<close> of the analyzer object:
  the state after the call, and the exception raised, if any; when none is raised the
  value returned is the \<open>endpoints\<close> of the new state.
\<close>

definition django_analyze ::
  "(expr \<Rightarrow> string) \<Rightarrow> source_file list \<Rightarrow> django_state \<Rightarrow> django_state \<times> error option" where
  "django_analyze unparse python_files s =
     (let s0 = s\<lparr>endpoints := []\<rparr>;
          s1 = serializers_pass unparse python_files s0;
          s2 = views_pass unparse python_files s1;
          s3 = urls_pass python_files s2
      in create_endpoints_from_patterns s3)"

section \<open>Framework detector (analyzers/detector.py)\<close>

text \<open>
  What the detector asks of the file system under the project root, each call with its
  two outcomes, the exception raised or the value returned:
  \<open>manage_py_exists\<close> is the call \<open>(project_path / "manage.py").exists()\<close>,
  \<open>glob pattern\<close> is \<open>list(project_path.glob(pattern))\<close>, and \<open>read_text py_file\<close> is
  \<open>py_file.read_text(encoding='utf-8')\<close>. Only \<open>read_text\<close> is called inside a \<open>try\<close>; an
  exception of \<open>exists\<close> or of \<open>glob\<close> (an \<open>OSError\<close>, such as the \<open>PermissionError\<close> of a
  root directory that cannot be searched) leaves the detector.
\<close>

record project =
  manage_py_exists :: "error + bool"
  glob :: "string \<Rightarrow> error + string list"
  read_text :: "string \<Rightarrow> error + string"

text \<open>
  The two regular expressions, \<open>^\s*from X|^\s*import X\<close> in multi-line mode, on ASCII
  text: at the start of the text or after a line feed, white space and then one of the
  two phrases.
\<close>

definition match_here :: "string list \<Rightarrow> string \<Rightarrow> bool" where
  "match_here phrases s = list_ex (\<lambda>phrase. starts_with phrase (dropWhile is_space s)) phrases"

fun search_from :: "string list \<Rightarrow> bool \<Rightarrow> string \<Rightarrow> bool" where
  "search_from phrases at_line_start [] = (at_line_start \<and> match_here phrases [])"
| "search_from phrases at_line_start (c # cs) =
     ((at_line_start \<and> match_here phrases (c # cs)) \<or> search_from phrases (c = CHR 0x0A) cs)"

definition django_import_pattern :: "string \<Rightarrow> bool" where
  "django_import_pattern content = search_from [''from django'', ''import django''] True content"

definition fastapi_import_pattern :: "string \<Rightarrow> bool" where
  "fastapi_import_pattern content =
     search_from [''from fastapi'', ''import fastapi''] True content"

text \<open>
  The scanning loop of both checks: a file that cannot be read is passed over, the first
  file whose content matches ends the loop.
\<close>

fun scan_files :: "project \<Rightarrow> (string \<Rightarrow> bool) \<Rightarrow> string list \<Rightarrow> bool" where
  "scan_files p pattern [] = False"
| "scan_files p pattern (py_file # rest) =
     (case read_text p py_file of
        Inl e \<Rightarrow> scan_files p pattern rest
      | Inr content \<Rightarrow> (if pattern content then True else scan_files p pattern rest))"

definition settings_patterns :: "string list" where
  "settings_patterns = [''**/settings.py'', ''**/settings/*.py'']"

text \<open>
  The loop of \<open>_is_django_project\<close> over the settings patterns: the exception of a glob,
  or whether one of the patterns yields a path.
\<close>

fun settings_loop :: "project \<Rightarrow> string list \<Rightarrow> error + bool" where
  "settings_loop p [] = Inr False"
| "settings_loop p (pattern # rest) =
     (case glob p pattern of
        Inl e \<Rightarrow> Inl e
      | Inr paths \<Rightarrow> (if paths \<noteq> [] then Inr True else settings_loop p rest))"

definition is_django_project :: "project \<Rightarrow> error + bool" where
  "is_django_project p =
     (case manage_py_exists p of
        Inl e \<Rightarrow> Inl e
      | Inr found \<Rightarrow>
          if found then Inr True
          else
            (case settings_loop p settings_patterns of
               Inl e \<Rightarrow> Inl e
             | Inr has_settings \<Rightarrow>
                 if has_settings then Inr True
                 else
                   (case glob p ''**/*.py'' of
                      Inl e \<Rightarrow> Inl e
                    | Inr python_files \<Rightarrow>
                        Inr (scan_files p django_import_pattern (take 20 python_files)))))"

definition is_fastapi_project :: "project \<Rightarrow> error + bool" where
  "is_fastapi_project p =
     (case glob p ''**/*.py'' of
        Inl e \<Rightarrow> Inl e
      | Inr python_files \<Rightarrow> Inr (scan_files p fastapi_import_pattern (take 20 python_files)))"

definition detect_framework :: "project \<Rightarrow> error + string" where
  "detect_framework p =
     (case is_django_project p of
        Inl e \<Rightarrow> Inl e
      | Inr is_django \<Rightarrow>
          if is_django then Inr ''django''
          else
            (case is_fastapi_project p of
               Inl e \<Rightarrow> Inl e
             | Inr is_fastapi \<Rightarrow> if is_fastapi then Inr ''fastapi'' else Inr ''fastapi''))"

text \<open>
  For the concrete examples: \<open>ast.unparse\<close> on names, dotted names and subscripts of
  them. The examples contain no other expression where the analyzers unparse one.
\<close>

fun unparse_names :: "expr \<Rightarrow> string" where
  "unparse_names (Name ident) = ident"
| "unparse_names (Attribute v a) = unparse_names v @ ''.'' @ a"
| "unparse_names (Subscript v sl) = unparse_names v @ ''['' @ unparse_names sl @ '']''"
| "unparse_names e = []"

section \<open>Concrete inputs\<close>

text \<open>
  \<^verbatim>\<open>@app.get("/items/{id}")\<close> on \<^verbatim>\<open>def read_item(id: int, limit: int = 10)\<close>.
\<close>

definition example_read_item :: funcdef where
  "example_read_item =
     \<lparr> func_name = ''read_item'',
       func_args = \<lparr> args = [\<lparr> arg = ''id'', annotation = Some (Name ''int'') \<rparr>,
                             \<lparr> arg = ''limit'', annotation = Some (Name ''int'') \<rparr>],
                     defaults = [Constant (CInt 10)] \<rparr>,
       decorator_list =
         [Call (Attribute (Name ''app'') ''get'') [Constant (CStr ''/items/{id}'')] []],
       returns = None, lineno = 5, docstring = None \<rparr>"


text \<open>
  A function under a decorator that is no route marker and two route markers:
  \<^verbatim>\<open>@cache\<close>, \<^verbatim>\<open>@app.get("/ping")\<close>, \<^verbatim>\<open>@app.post("/ping", status_code=201)\<close> on
  \<^verbatim>\<open>def ping()\<close>.
\<close>

definition example_two_markers :: funcdef where
  "example_two_markers =
     \<lparr> func_name = ''ping'',
       func_args = \<lparr> args = [], defaults = [] \<rparr>,
       decorator_list =
         [Name ''cache'',
          Call (Attribute (Name ''app'') ''get'') [Constant (CStr ''/ping'')] [],
          Call (Attribute (Name ''app'') ''post'') [Constant (CStr ''/ping'')]
            [(Some ''status_code'', Constant (CInt 201))]],
       returns = None, lineno = 3, docstring = None \<rparr>"

text \<open>
  A project of two files: \<open>main.py\<close> with the two functions above, and \<open>broken.py\<close>, which
  \<open>ast.parse\<close> rejects.
\<close>

definition example_main_py :: source_file where
  "example_main_py =
     \<lparr> full_path = ''/srv/shop/main.py'', file_name = ''main.py'', rel_path = ''main.py'',
       parsed = Inr [FunctionDef example_read_item, OtherStmt, FunctionDef example_two_markers],
       url_text = Inr ([], []) \<rparr>"

definition example_broken_py :: source_file where
  "example_broken_py =
     \<lparr> full_path = ''/srv/shop/broken.py'', file_name = ''broken.py'', rel_path = ''broken.py'',
       parsed = Inl (SyntaxError ''invalid syntax (<unknown>, line 1)''),
       url_text = Inr ([], []) \<rparr>"

text \<open>
  A Django project of two files. \<open>views.py\<close> holds
  \<^verbatim>\<open>class ProductViewSet(viewsets.ModelViewSet): serializer_class = ProductSerializer\<close>
  and \<open>urls.py\<close> holds \<^verbatim>\<open>router.register(r'products', views.ProductViewSet)\<close>.
\<close>

definition example_views_py :: source_file where
  "example_views_py =
     \<lparr> full_path = ''/srv/shop/views.py'', file_name = ''views.py'', rel_path = ''views.py'',
       parsed = Inr [ClassDef ''ProductViewSet'' [Attribute (Name ''viewsets'') ''ModelViewSet'']
                       [Assign [Name ''serializer_class''] (Name ''ProductSerializer'')] 4 None],
       url_text = Inr ([], []) \<rparr>"

definition example_urls_py :: source_file where
  "example_urls_py =
     \<lparr> full_path = ''/srv/shop/urls.py'', file_name = ''urls.py'', rel_path = ''urls.py'',
       parsed = Inr [OtherStmt],
       url_text = Inr ([(''products'', ''ProductViewSet'')], []) \<rparr>"

text \<open>
  The viewset entry of
  \<^verbatim>\<open>class ProductViewSet(viewsets.ViewSet)\<close> with the two methods \<open>list\<close> and \<open>retrieve\<close>,
  as the second pass records it.
\<close>

definition example_product_body :: "stmt list" where
  "example_product_body =
     [FunctionDef \<lparr> func_name = ''list'',
                    func_args = \<lparr> args = [\<lparr> arg = ''self'', annotation = None \<rparr>,
                                          \<lparr> arg = ''request'', annotation = None \<rparr>],
                                  defaults = [] \<rparr>,
                    decorator_list = [], returns = None, lineno = 5, docstring = None \<rparr>,
      FunctionDef \<lparr> func_name = ''retrieve'',
                    func_args = \<lparr> args = [\<lparr> arg = ''self'', annotation = None \<rparr>,
                                          \<lparr> arg = ''request'', annotation = None \<rparr>,
                                          \<lparr> arg = ''pk'', annotation = None \<rparr>],
                                  defaults = [Constant CNone] \<rparr>,
                    decorator_list = [], returns = None, lineno = 8, docstring = None \<rparr>]"

definition example_product_viewset :: view_info where
  "example_product_viewset =
     extract_viewset ''ProductViewSet'' example_product_body 4 None example_views_py"

text \<open>
  The viewset entry of \<^verbatim>\<open>class ArticleViewSet(viewsets.ModelViewSet)\<close> whose only method
  is \<^verbatim>\<open>@action(detail=True, methods=['post'])\<close> \<^verbatim>\<open>def publish(self, request, pk=None)\<close>.
\<close>

definition example_article_viewset :: view_info where
  "example_article_viewset =
     extract_viewset ''ArticleViewSet''
       [FunctionDef \<lparr> func_name = ''publish'',
                      func_args = \<lparr> args = [\<lparr> arg = ''self'', annotation = None \<rparr>,
                                            \<lparr> arg = ''request'', annotation = None \<rparr>,
                                            \<lparr> arg = ''pk'', annotation = None \<rparr>],
                                    defaults = [Constant CNone] \<rparr>,
                      decorator_list =
                        [Call (Name ''action'') []
                           [(Some ''detail'', Constant (CBool True)),
                            (Some ''methods'', List_e [Constant (CStr ''post'')])]],
                      returns = None, lineno = 7, docstring = None \<rparr>]
       4 None example_views_py"

text \<open>
  A project root without \<open>manage.py\<close> and without a settings module, with twenty-one
  Python files: \<open>m0.py\<close> to \<open>m19.py\<close> hold \<^verbatim>\<open>import os\<close> and the last one, \<open>models.py\<close>,
  holds \<^verbatim>\<open>from django.db import models\<close>.
\<close>

definition example_sampled_project :: project where
  "example_sampled_project =
     \<lparr> manage_py_exists = Inr False,
       glob = (\<lambda>pattern.
                 if pattern = ''**/*.py''
                 then Inr (map (\<lambda>i. ''m'' @ str_nat i @ ''.py'') [0..<20] @ [''models.py''])
                 else Inr []),
       read_text = (\<lambda>py_file.
                      if py_file = ''models.py'' then Inr ''from django.db import models''
                      else Inr ''import os'') \<rparr>"

text \<open>
  A project root that exists and cannot be searched (a directory without the search
  permission for the user): \<open>exists\<close> on \<open>manage.py\<close> and every glob raise
  \<open>PermissionError\<close>, a subclass of \<open>OSError\<close>.
\<close>

definition example_unsearchable_project :: project where
  "example_unsearchable_project =
     \<lparr> manage_py_exists = Inl (OSError ''[Errno 13] Permission denied''),
       glob = (\<lambda>pattern. Inl (OSError ''[Errno 13] Permission denied'')),
       read_text = (\<lambda>py_file. Inl (OSError ''[Errno 13] Permission denied'')) \<rparr>"

text \<open>
  The \<open>urls.py\<close> of the Django project above with a syntax error after the
  registration: \<open>ast.parse\<close> rejects the file, and the two regular expressions read the
  same registration in its text.
\<close>

definition example_broken_urls_py :: source_file where
  "example_broken_urls_py =
     \<lparr> full_path = ''/srv/shop/urls.py'', file_name = ''urls.py'', rel_path = ''urls.py'',
       parsed = Inl (SyntaxError ''invalid syntax (<unknown>, line 3)''),
       url_text = Inr ([(''products'', ''ProductViewSet'')], []) \<rparr>"

section \<open>States that differ in the printed lines only\<close>

text \<open>
  Two states of a \<open>DjangoAnalyzer\<close> that agree on the endpoints, the URL patterns, the
  views and the serializers, whatever each run has printed.
\<close>

definition same_run :: "django_state \<Rightarrow> django_state \<Rightarrow> bool" where
  "same_run s t = (t\<lparr>printed := []\<rparr> = s\<lparr>printed := []\<rparr>)"

section \<open>Properties\<close>

subsection \<open>Parameter extraction of the single-pass extractor\<close>











subsection \<open>C2: required and default\<close>




subsection \<open>C5: location of a parameter\<close>



subsection \<open>C6: several route markers on one function\<close>






lemma example_two_markers_endpoint:
  "extract_endpoint_from_function unparse_names example_two_markers ''main.py'' =
     Inr (Some \<lparr> path = CStr ''/ping'', method = ''GET'', function_name = ''ping'',
                 summary = None, description = None, parameters = [],
                 request_model = None, response_model = None, tags = [],
                 status_code = CInt 200, file_path = ''main.py'', line_number = 3 \<rparr>)"
  by code_simp


subsection \<open>C8: a file that fails to parse\<close>

text \<open>
  Every step of the single-pass analysis only appends: to the endpoint list and to the
  printed lines, by amounts that do not depend on the state it starts from.
\<close>

lemma analyze_nodes_appends:
  "\<exists>E P. \<forall>s. analyze_nodes u f ns s
       = s\<lparr>endpoints := endpoints s @ E, printed := printed s @ P\<rparr>"
proof (induction ns)
  case Nil
  have "\<forall>s. analyze_nodes u f [] s = s\<lparr>endpoints := endpoints s @ [], printed := printed s @ []\<rparr>"
    by simp
  then show ?case by blast
next
  case (Cons n ns)
  then obtain E P where EP:
    "\<And>s. analyze_nodes u f ns s = s\<lparr>endpoints := endpoints s @ E, printed := printed s @ P\<rparr>"
    by blast
  have skip: "analyze_nodes u f (n # ns) = analyze_nodes u f ns \<Longrightarrow> ?case"
    using EP by metis
  show ?case
  proof (cases n)
    case (FunctionDef fd)
    show ?thesis
    proof (cases "extract_endpoint_from_function u fd (rel_path f)")
      case (Inl e)
      have "\<forall>s. analyze_nodes u f (n # ns) s
          = s\<lparr>endpoints := endpoints s @ [],
               printed := printed s @ [error_line ''Error analyzing '' f e]\<rparr>"
        using FunctionDef Inl by simp
      then show ?thesis by blast
    next
      case (Inr r)
      show ?thesis
      proof (cases r)
        case None
        have "analyze_nodes u f (n # ns) = analyze_nodes u f ns"
          using FunctionDef Inr None by (simp add: fun_eq_iff)
        then show ?thesis by (rule skip)
      next
        case (Some ep)
        have "\<forall>s. analyze_nodes u f (n # ns) s
            = s\<lparr>endpoints := endpoints s @ (ep # E), printed := printed s @ P\<rparr>"
          using FunctionDef Inr Some by (simp add: EP)
        then show ?thesis by blast
      qed
    qed
  next
    case (ClassDef x1 x2 x3 x4 x5)
    then have "analyze_nodes u f (n # ns) = analyze_nodes u f ns" by (simp add: fun_eq_iff)
    then show ?thesis by (rule skip)
  next
    case (Assign x1 x2)
    then have "analyze_nodes u f (n # ns) = analyze_nodes u f ns" by (simp add: fun_eq_iff)
    then show ?thesis by (rule skip)
  next
    case (AnnAssign x)
    then have "analyze_nodes u f (n # ns) = analyze_nodes u f ns" by (simp add: fun_eq_iff)
    then show ?thesis by (rule skip)
  next
    case OtherStmt
    then have "analyze_nodes u f (n # ns) = analyze_nodes u f ns" by (simp add: fun_eq_iff)
    then show ?thesis by (rule skip)
  qed
qed

lemma analyze_file_appends:
  "\<exists>E P. \<forall>s. analyze_file u f s
       = s\<lparr>endpoints := endpoints s @ E, printed := printed s @ P\<rparr>"
proof (cases "parsed f")
  case (Inl e)
  have "\<forall>s. analyze_file u f s
       = s\<lparr>endpoints := endpoints s @ [],
            printed := printed s @ [error_line ''Error analyzing '' f e]\<rparr>"
    using Inl by (simp add: analyze_file_def)
  then show ?thesis by blast
next
  case (Inr ns)
  then have "analyze_file u f = analyze_nodes u f ns"
    by (simp add: analyze_file_def fun_eq_iff)
  then show ?thesis using analyze_nodes_appends[of u f ns] by simp
qed

lemma analyze_files_appends:
  "\<exists>E P. \<forall>s. analyze_files u fs s
       = s\<lparr>endpoints := endpoints s @ E, printed := printed s @ P\<rparr>"
proof (induction fs)
  case Nil
  have "\<forall>s. analyze_files u [] s = s\<lparr>endpoints := endpoints s @ [], printed := printed s @ []\<rparr>"
    by simp
  then show ?case by blast
next
  case (Cons f fs)
  then obtain E P where EP:
    "\<And>s. analyze_files u fs s = s\<lparr>endpoints := endpoints s @ E, printed := printed s @ P\<rparr>"
    by blast
  show ?case
  proof (cases "should_skip_file f")
    case True
    then have "analyze_files u (f # fs) = analyze_files u fs" by (simp add: fun_eq_iff)
    then show ?thesis using EP by metis
  next
    case False
    obtain E' P' where EP':
      "\<And>s. analyze_file u f s = s\<lparr>endpoints := endpoints s @ E', printed := printed s @ P'\<rparr>"
      using analyze_file_appends by blast
    have "\<forall>s. analyze_files u (f # fs) s
        = s\<lparr>endpoints := endpoints s @ (E' @ E), printed := printed s @ (P' @ P)\<rparr>"
      using False by (simp add: EP EP')
    then show ?thesis by blast
  qed
qed

lemma analyze_files_append:
  "analyze_files u (xs @ ys) s = analyze_files u ys (analyze_files u xs s)"
  by (induction xs arbitrary: s) auto

text \<open>
  The single-pass \<open>analyze\<close> starts from an empty endpoint list: the endpoints it returns
  do not depend on the state of the analyzer object, and a second call on the same files
  returns the same endpoints.
\<close>

lemma fastapi_analyze_independent:
  "endpoints (fastapi_analyze u fs s) = endpoints (fastapi_analyze u fs s')"
proof -
  obtain E P where
    "\<And>s. analyze_files u fs s = s\<lparr>endpoints := endpoints s @ E, printed := printed s @ P\<rparr>"
    using analyze_files_appends by blast
  then show ?thesis by (simp add: fastapi_analyze_def)
qed

lemma fastapi_analyze_idempotent:
  "endpoints (fastapi_analyze u fs (fastapi_analyze u fs s)) = endpoints (fastapi_analyze u fs s)"
  by (rule fastapi_analyze_independent)

lemma same_run_iff:
  "same_run s t = (endpoints t = endpoints s \<and> url_patterns t = url_patterns s
                   \<and> viewsets t = viewsets s \<and> serializers t = serializers s)"
proof
  assume "same_run s t"
  then have h: "t\<lparr>printed := []\<rparr> = s\<lparr>printed := []\<rparr>" by (simp add: same_run_def)
  have "endpoints (t\<lparr>printed := []\<rparr>) = endpoints (s\<lparr>printed := []\<rparr>)"
    "url_patterns (t\<lparr>printed := []\<rparr>) = url_patterns (s\<lparr>printed := []\<rparr>)"
    "viewsets (t\<lparr>printed := []\<rparr>) = viewsets (s\<lparr>printed := []\<rparr>)"
    "serializers (t\<lparr>printed := []\<rparr>) = serializers (s\<lparr>printed := []\<rparr>)"
    using h by simp_all
  then show "endpoints t = endpoints s \<and> url_patterns t = url_patterns s
                   \<and> viewsets t = viewsets s \<and> serializers t = serializers s"
    by simp
next
  assume "endpoints t = endpoints s \<and> url_patterns t = url_patterns s
                   \<and> viewsets t = viewsets s \<and> serializers t = serializers s"
  then show "same_run s t"
    unfolding same_run_def by (intro django_state.equality) simp_all
qed

lemma same_run_trans: "same_run s t \<Longrightarrow> same_run t r \<Longrightarrow> same_run s r"
  by (simp add: same_run_iff)

lemma serializer_nodes_same:
  "same_run s t \<Longrightarrow> same_run (serializer_nodes u f ns s) (serializer_nodes u f ns t)"
proof (induction ns arbitrary: s t)
  case Nil
  then show ?case by simp
next
  case (Cons n ns)
  show ?case
  proof (cases n)
    case (ClassDef cname bases body line doc)
    let ?v = "\<lparr> s_fields = extract_serializer_fields body, s_file = rel_path f \<rparr>"
    have "same_run (s\<lparr>serializers := (serializers s)(cname \<mapsto> ?v)\<rparr>)
                   (t\<lparr>serializers := (serializers t)(cname \<mapsto> ?v)\<rparr>)"
      using Cons.prems by (simp add: same_run_iff)
    from Cons.IH[OF this] Cons.IH[OF Cons.prems] show ?thesis
      using ClassDef by simp
  qed (use Cons.IH[OF Cons.prems] in simp_all)
qed

lemma extract_serializers_same:
  "same_run s t \<Longrightarrow> same_run (extract_serializers u f s) (extract_serializers u f t)"
proof (cases "parsed f")
  case (Inl e)
  assume "same_run s t"
  then show ?thesis using Inl by (simp add: extract_serializers_def same_run_iff)
next
  case (Inr ns)
  assume "same_run s t"
  then show ?thesis using Inr by (simp add: extract_serializers_def serializer_nodes_same)
qed

lemma serializers_pass_same:
  "same_run s t \<Longrightarrow> same_run (serializers_pass u fs s) (serializers_pass u fs t)"
  by (induction fs arbitrary: s t) (simp_all add: extract_serializers_same)

lemma view_nodes_same:
  "same_run s t \<Longrightarrow> same_run (view_nodes u f ns s) (view_nodes u f ns t)"
proof (induction ns arbitrary: s t)
  case Nil
  then show ?case by simp
next
  case (Cons n ns)
  have upd: "\<And>k v. same_run (s\<lparr>viewsets := (viewsets s)(k \<mapsto> v)\<rparr>)
                             (t\<lparr>viewsets := (viewsets t)(k \<mapsto> v)\<rparr>)"
    using Cons.prems by (simp add: same_run_iff)
  show ?case
  proof (cases n)
    case (ClassDef cname bases body line doc)
    show ?thesis
    proof (cases "get_view_type u bases")
      case None
      then show ?thesis using ClassDef Cons.IH[OF Cons.prems] by simp
    next
      case (Some vt)
      then show ?thesis using ClassDef Cons.IH[OF upd] by (cases vt) simp_all
    qed
  next
    case (FunctionDef node)
    show ?thesis
    proof (cases "has_api_view_decorator (decorator_list node)")
      case False
      then show ?thesis using FunctionDef Cons.IH[OF Cons.prems] by simp
    next
      case True
      show ?thesis
      proof (cases "extract_function_based_view node f")
        case (Inl e)
        then show ?thesis using FunctionDef True Cons.prems by (simp add: same_run_iff)
      next
        case (Inr info)
        then show ?thesis using FunctionDef True Cons.IH[OF upd] by simp
      qed
    qed
  qed (use Cons.IH[OF Cons.prems] in simp_all)
qed

lemma extract_views_same:
  "same_run s t \<Longrightarrow> same_run (extract_views u f s) (extract_views u f t)"
proof (cases "parsed f")
  case (Inl e)
  assume "same_run s t"
  then show ?thesis using Inl by (simp add: extract_views_def same_run_iff)
next
  case (Inr ns)
  assume "same_run s t"
  then show ?thesis using Inr by (simp add: extract_views_def view_nodes_same)
qed

lemma views_pass_same:
  "same_run s t \<Longrightarrow> same_run (views_pass u fs s) (views_pass u fs t)"
  by (induction fs arbitrary: s t) (simp_all add: extract_views_same)

lemma parse_url_patterns_same:
  "same_run s t \<Longrightarrow> same_run (parse_url_patterns f s) (parse_url_patterns f t)"
  by (simp add: parse_url_patterns_def same_run_iff split: sum.splits prod.splits)

lemma urls_pass_same:
  "same_run s t \<Longrightarrow> same_run (urls_pass fs s) (urls_pass fs t)"
  by (induction fs arbitrary: s t) (simp_all add: parse_url_patterns_same)

lemma patterns_loop_same:
  "same_run s t \<Longrightarrow>
     same_run (fst (patterns_loop ps s)) (fst (patterns_loop ps t))
     \<and> snd (patterns_loop ps s) = snd (patterns_loop ps t)"
proof (induction ps arbitrary: s t)
  case Nil
  then show ?case by simp
next
  case (Cons x ps)
  have v: "viewsets t = viewsets s" using Cons.prems by (simp add: same_run_iff)
  obtain eps err where r: "pattern_endpoints (viewsets s) x = (eps, err)"
    by (cases "pattern_endpoints (viewsets s) x")
  have upd: "same_run (s\<lparr>endpoints := endpoints s @ eps\<rparr>) (t\<lparr>endpoints := endpoints t @ eps\<rparr>)"
    using Cons.prems by (simp add: same_run_iff)
  show ?case
  proof (cases err)
    case None
    then show ?thesis using r v Cons.IH[OF upd] by simp
  next
    case (Some e)
    then show ?thesis using r v upd by simp
  qed
qed

lemma serializers_pass_append:
  "serializers_pass u (xs @ ys) s = serializers_pass u ys (serializers_pass u xs s)"
  by (induction xs arbitrary: s) auto

lemma views_pass_append:
  "views_pass u (xs @ ys) s = views_pass u ys (views_pass u xs s)"
  by (induction xs arbitrary: s) auto

lemma urls_pass_append:
  "urls_pass (xs @ ys) s = urls_pass ys (urls_pass xs s)"
  by (induction xs arbitrary: s) auto

lemma serializers_pass_failed_file:
  assumes "parsed f = Inl e"
  shows "same_run (serializers_pass u (pre @ post) s) (serializers_pass u (pre @ f # post) s)"
proof -
  let ?s1 = "serializers_pass u pre s"
  have "same_run ?s1 (extract_serializers u f ?s1)"
    using assms by (simp add: extract_serializers_def same_run_iff)
  then have "same_run (serializers_pass u post ?s1)
                      (serializers_pass u post (extract_serializers u f ?s1))"
    by (rule serializers_pass_same)
  moreover have "same_run (serializers_pass u post ?s1) (serializers_pass u post ?s1)"
    by (simp add: same_run_iff)
  ultimately show ?thesis by (simp add: serializers_pass_append)
qed

lemma views_pass_failed_file:
  assumes "parsed f = Inl e"
  shows "same_run (views_pass u (pre @ post) s) (views_pass u (pre @ f # post) s)"
proof -
  let ?s1 = "views_pass u pre s"
  have "same_run ?s1 (extract_views u f ?s1)"
    using assms by (simp add: extract_views_def same_run_iff)
  then have "same_run (views_pass u post ?s1) (views_pass u post (extract_views u f ?s1))"
    by (rule views_pass_same)
  moreover have "same_run (views_pass u post ?s1) (views_pass u post ?s1)"
    by (simp add: same_run_iff)
  ultimately show ?thesis by (simp add: views_pass_append)
qed

lemma urls_pass_other_file:
  "\<not> py_in ''urls.py'' (file_name f) \<Longrightarrow>
     urls_pass (pre @ f # post) s = urls_pass (pre @ post) s"
  by (simp add: urls_pass_append)

lemma django_analyze_failed_file:
  assumes "parsed f = Inl e" and "\<not> py_in ''urls.py'' (file_name f)"
  shows "same_run (fst (django_analyze u (pre @ post) s))
                  (fst (django_analyze u (pre @ f # post) s))
         \<and> snd (django_analyze u (pre @ post) s) = snd (django_analyze u (pre @ f # post) s)"
proof -
  let ?s0 = "s\<lparr>endpoints := []\<rparr>"
  let ?a = "serializers_pass u (pre @ post) ?s0"
  let ?a' = "serializers_pass u (pre @ f # post) ?s0"
  have a: "same_run ?a ?a'" by (rule serializers_pass_failed_file[OF assms(1)])
  let ?b = "views_pass u (pre @ post) ?a"
  let ?b' = "views_pass u (pre @ f # post) ?a'"
  have "same_run ?b (views_pass u (pre @ post) ?a')" by (rule views_pass_same[OF a])
  moreover have "same_run (views_pass u (pre @ post) ?a') ?b'"
    by (rule views_pass_failed_file[OF assms(1)])
  ultimately have b: "same_run ?b ?b'" by (rule same_run_trans)
  let ?c = "urls_pass (pre @ post) ?b"
  let ?c' = "urls_pass (pre @ f # post) ?b'"
  have c: "same_run ?c ?c'"
    using urls_pass_same[OF b, of "pre @ post"] urls_pass_other_file[OF assms(2)] by simp
  then have "url_patterns ?c' = url_patterns ?c" by (simp add: same_run_iff)
  then show ?thesis
    using patterns_loop_same[OF c, of "url_patterns ?c"]
    by (simp add: django_analyze_def create_endpoints_from_patterns_def Let_def)
qed

lemma view_nodes_printed_mono:
  "set (printed s) \<subseteq> set (printed (view_nodes u f ns s))"
proof (induction ns arbitrary: s)
  case Nil
  then show ?case by simp
next
  case (Cons n ns)
  show ?case
  proof (cases n)
    case (ClassDef cname bases body line doc)
    show ?thesis
    proof (cases "get_view_type u bases")
      case None
      then show ?thesis using ClassDef Cons.IH[of s] by simp
    next
      case (Some vt)
      then show ?thesis
        using ClassDef
          Cons.IH[of "s\<lparr>viewsets := (viewsets s)(cname \<mapsto> extract_viewset cname body line doc f)\<rparr>"]
          Cons.IH[of "s\<lparr>viewsets := (viewsets s)(cname \<mapsto> extract_apiview cname body line doc f)\<rparr>"]
        by (cases vt) simp_all
    qed
  next
    case (FunctionDef node)
    show ?thesis
    proof (cases "has_api_view_decorator (decorator_list node)")
      case False
      then show ?thesis using FunctionDef Cons.IH[of s] by simp
    next
      case True
      show ?thesis
      proof (cases "extract_function_based_view node f")
        case (Inl e)
        then show ?thesis using FunctionDef True by auto
      next
        case (Inr info)
        then show ?thesis
          using FunctionDef True
            Cons.IH[of "s\<lparr>viewsets := (viewsets s)(func_name node \<mapsto> info)\<rparr>"]
          by simp
      qed
    qed
  qed (use Cons.IH[of s] in simp_all)
qed

lemma extract_views_printed_mono:
  "set (printed s) \<subseteq> set (printed (extract_views u f s))"
  using view_nodes_printed_mono by (auto simp: extract_views_def split: sum.splits)

lemma views_pass_printed_mono:
  "set (printed s) \<subseteq> set (printed (views_pass u fs s))"
proof (induction fs arbitrary: s)
  case Nil
  then show ?case by simp
next
  case (Cons f fs)
  show ?case
    using Cons.IH[of s] Cons.IH[of "extract_views u f s"] extract_views_printed_mono[of s u f]
    by auto
qed

lemma parse_url_patterns_printed_mono:
  "set (printed s) \<subseteq> set (printed (parse_url_patterns f s))"
  by (auto simp: parse_url_patterns_def split: sum.splits prod.splits)

lemma urls_pass_printed_mono:
  "set (printed s) \<subseteq> set (printed (urls_pass fs s))"
proof (induction fs arbitrary: s)
  case Nil
  then show ?case by simp
next
  case (Cons f fs)
  show ?case
    using Cons.IH[of s] Cons.IH[of "parse_url_patterns f s"]
      parse_url_patterns_printed_mono[of s f]
    by auto
qed

lemma patterns_loop_printed:
  "printed (fst (patterns_loop ps s)) = printed s"
proof (induction ps arbitrary: s)
  case Nil
  then show ?case by simp
next
  case (Cons x ps)
  obtain eps err where r: "pattern_endpoints (viewsets s) x = (eps, err)"
    by (cases "pattern_endpoints (viewsets s) x")
  show ?case
    using r Cons.IH[of "s\<lparr>endpoints := endpoints s @ eps\<rparr>"] by (cases err) simp_all
qed

lemma django_analyze_diagnostic:
  assumes "parsed f = Inl e" and "\<not> should_skip_file f" and "\<not> py_in ''admin'' (full_path f)"
  shows "error_line ''Error extracting views from '' f e
           \<in> set (printed (fst (django_analyze u (pre @ f # post) s)))"
proof -
  let ?line = "error_line ''Error extracting views from '' f e"
  let ?a = "serializers_pass u (pre @ f # post) (s\<lparr>endpoints := []\<rparr>)"
  let ?x = "views_pass u pre ?a"
  have "extract_views u f ?x = ?x\<lparr>printed := printed ?x @ [?line]\<rparr>"
    using assms(1) by (simp add: extract_views_def)
  then have "?line \<in> set (printed (extract_views u f ?x))" by simp
  then have "?line \<in> set (printed (views_pass u post (extract_views u f ?x)))"
    using views_pass_printed_mono by blast
  then have "?line \<in> set (printed (views_pass u (pre @ f # post) ?a))"
    using assms(2,3) by (simp add: views_pass_append)
  then have "?line \<in> set (printed (urls_pass (pre @ f # post)
                                       (views_pass u (pre @ f # post) ?a)))"
    using urls_pass_printed_mono by blast
  then show ?thesis
    by (simp add: django_analyze_def create_endpoints_from_patterns_def Let_def
        patterns_loop_printed)
qed

text \<open>
  Claim C8, as amended. If a file of the set fails to parse, the single-pass \<open>analyze\<close>
  still returns, the endpoints it returns are those it returns for the file set without
  that file, and the diagnostic line for the file is printed when \<open>_should_skip_file\<close>
  does not exclude it. The multi-pass \<open>analyze\<close> does the same for every file whose
  name does not contain \<open>urls.py\<close>: the endpoints, and the exception of the join if there
  is one, are those for the file set without the file, and the view pass prints its
  diagnostic line when the file is neither excluded nor an \<open>admin\<close> file. The routing
  pass reads a file whose name contains \<open>urls.py\<close> as text and never parses it.
\<close>

theorem C8_parse_failure_skipped:
  assumes "parsed f = Inl e"
  shows "endpoints (fastapi_analyze u (pre @ f # post) s)
           = endpoints (fastapi_analyze u (pre @ post) s)
         \<and> (\<not> should_skip_file f \<longrightarrow>
              error_line ''Error analyzing '' f e
                \<in> set (printed (fastapi_analyze u (pre @ f # post) s)))
         \<and> (\<not> py_in ''urls.py'' (file_name f) \<longrightarrow>
              endpoints (fst (django_analyze u (pre @ f # post) d))
                = endpoints (fst (django_analyze u (pre @ post) d))
              \<and> snd (django_analyze u (pre @ f # post) d)
                  = snd (django_analyze u (pre @ post) d)
              \<and> (\<not> should_skip_file f \<and> \<not> py_in ''admin'' (full_path f) \<longrightarrow>
                   error_line ''Error extracting views from '' f e
                     \<in> set (printed (fst (django_analyze u (pre @ f # post) d)))))"
proof -
  define s1 where "s1 = analyze_files u pre (s\<lparr>endpoints := []\<rparr>)"
  obtain E P where EP:
    "\<And>t. analyze_files u post t = t\<lparr>endpoints := endpoints t @ E, printed := printed t @ P\<rparr>"
    using analyze_files_appends by blast
  have with_f: "fastapi_analyze u (pre @ f # post) s = analyze_files u (f # post) s1"
    by (simp add: fastapi_analyze_def analyze_files_append s1_def)
  have without_f: "fastapi_analyze u (pre @ post) s = analyze_files u post s1"
    by (simp add: fastapi_analyze_def analyze_files_append s1_def)
  have single: "endpoints (fastapi_analyze u (pre @ f # post) s)
           = endpoints (fastapi_analyze u (pre @ post) s)
         \<and> (\<not> should_skip_file f \<longrightarrow>
              error_line ''Error analyzing '' f e
                \<in> set (printed (fastapi_analyze u (pre @ f # post) s)))"
  proof (cases "should_skip_file f")
    case True
    then show ?thesis using with_f without_f by simp
  next
    case False
    have "analyze_file u f s1 = s1\<lparr>printed := printed s1 @ [error_line ''Error analyzing '' f e]\<rparr>"
      using assms by (simp add: analyze_file_def)
    then have "analyze_files u (f # post) s1
        = analyze_files u post (s1\<lparr>printed := printed s1 @ [error_line ''Error analyzing '' f e]\<rparr>)"
      using False by simp
    then show ?thesis using with_f without_f by (simp add: EP)
  qed
  have multi: "\<not> py_in ''urls.py'' (file_name f) \<longrightarrow>
              endpoints (fst (django_analyze u (pre @ f # post) d))
                = endpoints (fst (django_analyze u (pre @ post) d))
              \<and> snd (django_analyze u (pre @ f # post) d)
                  = snd (django_analyze u (pre @ post) d)
              \<and> (\<not> should_skip_file f \<and> \<not> py_in ''admin'' (full_path f) \<longrightarrow>
                   error_line ''Error extracting views from '' f e
                     \<in> set (printed (fst (django_analyze u (pre @ f # post) d))))"
  proof (intro impI conjI)
    assume n: "\<not> py_in ''urls.py'' (file_name f)"
    from django_analyze_failed_file[OF assms n, of u pre post d]
    show "endpoints (fst (django_analyze u (pre @ f # post) d))
                = endpoints (fst (django_analyze u (pre @ post) d))"
      and "snd (django_analyze u (pre @ f # post) d) = snd (django_analyze u (pre @ post) d)"
      by (simp_all add: same_run_iff)
  next
    assume "\<not> should_skip_file f \<and> \<not> py_in ''admin'' (full_path f)"
    then show "error_line ''Error extracting views from '' f e
                     \<in> set (printed (fst (django_analyze u (pre @ f # post) d)))"
      using django_analyze_diagnostic[OF assms] by blast
  qed
  from single multi show ?thesis by blast
qed

lemma example_project_endpoints:
  "map (\<lambda>ep. (method ep, path ep, function_name ep))
     (endpoints (fastapi_analyze unparse_names [example_main_py]
        \<lparr> endpoints = [], printed = [] \<rparr>))
   = [(''GET'', CStr ''/items/{id}'', ''read_item''), (''GET'', CStr ''/ping'', ''ping'')]"
  by code_simp

lemma example_django_endpoints:
  "map (\<lambda>ep. (method ep, path ep))
     (endpoints (fst (django_analyze unparse_names ([example_views_py] @ [example_urls_py])
                        django_init)))
   = [(''GET'', CStr ''/products/''), (''POST'', CStr ''/products/''),
      (''GET'', CStr ''/products/{id}/''), (''PUT'', CStr ''/products/{id}/''),
      (''PATCH'', CStr ''/products/{id}/''), (''DELETE'', CStr ''/products/{id}/'')]"
  by code_simp

theorem C8_witness:
  "parsed example_broken_py = Inl (SyntaxError ''invalid syntax (<unknown>, line 1)'')
   \<and> \<not> should_skip_file example_broken_py
   \<and> \<not> py_in ''urls.py'' (file_name example_broken_py)
   \<and> \<not> py_in ''admin'' (full_path example_broken_py)
   \<and> map (\<lambda>ep. (method ep, path ep, function_name ep))
       (endpoints (fastapi_analyze unparse_names ([] @ example_broken_py # [example_main_py])
          \<lparr> endpoints = [], printed = [] \<rparr>))
     = [(''GET'', CStr ''/items/{id}'', ''read_item''), (''GET'', CStr ''/ping'', ''ping'')]
   \<and> ''Error analyzing /srv/shop/broken.py: invalid syntax (<unknown>, line 1)''
       \<in> set (printed (fastapi_analyze unparse_names ([] @ example_broken_py # [example_main_py])
          \<lparr> endpoints = [], printed = [] \<rparr>))
   \<and> map (\<lambda>ep. (method ep, path ep))
       (endpoints (fst (django_analyze unparse_names
          ([example_views_py] @ example_broken_py # [example_urls_py]) django_init)))
     = [(''GET'', CStr ''/products/''), (''POST'', CStr ''/products/''),
        (''GET'', CStr ''/products/{id}/''), (''PUT'', CStr ''/products/{id}/''),
        (''PATCH'', CStr ''/products/{id}/''), (''DELETE'', CStr ''/products/{id}/'')]
   \<and> ''Error extracting views from /srv/shop/broken.py: invalid syntax (<unknown>, line 1)''
       \<in> set (printed (fst (django_analyze unparse_names
          ([example_views_py] @ example_broken_py # [example_urls_py]) django_init)))"
proof -
  have h: "parsed example_broken_py = Inl (SyntaxError ''invalid syntax (<unknown>, line 1)'')"
    by (simp add: example_broken_py_def)
  have ns: "\<not> should_skip_file example_broken_py" by code_simp
  have nu: "\<not> py_in ''urls.py'' (file_name example_broken_py)" by code_simp
  have na: "\<not> py_in ''admin'' (full_path example_broken_py)" by code_simp
  have line: "error_line ''Error analyzing '' example_broken_py
                (SyntaxError ''invalid syntax (<unknown>, line 1)'')
              = ''Error analyzing /srv/shop/broken.py: invalid syntax (<unknown>, line 1)''"
    by (simp add: error_line_def example_broken_py_def)
  have line2: "error_line ''Error extracting views from '' example_broken_py
                (SyntaxError ''invalid syntax (<unknown>, line 1)'')
     = ''Error extracting views from /srv/shop/broken.py: invalid syntax (<unknown>, line 1)''"
    by (simp add: error_line_def example_broken_py_def)
  from C8_parse_failure_skipped[OF h, of unparse_names "[]" "[example_main_py]"
      "\<lparr> endpoints = [], printed = [] \<rparr>"] ns line example_project_endpoints
  have single: "map (\<lambda>ep. (method ep, path ep, function_name ep))
       (endpoints (fastapi_analyze unparse_names ([] @ example_broken_py # [example_main_py])
          \<lparr> endpoints = [], printed = [] \<rparr>))
     = [(''GET'', CStr ''/items/{id}'', ''read_item''), (''GET'', CStr ''/ping'', ''ping'')]
   \<and> ''Error analyzing /srv/shop/broken.py: invalid syntax (<unknown>, line 1)''
       \<in> set (printed (fastapi_analyze unparse_names ([] @ example_broken_py # [example_main_py])
          \<lparr> endpoints = [], printed = [] \<rparr>))"
    by simp
  from C8_parse_failure_skipped[OF h, of unparse_names "[example_views_py]" "[example_urls_py]"
      _ django_init] ns nu na line2 example_django_endpoints
  have multi: "map (\<lambda>ep. (method ep, path ep))
       (endpoints (fst (django_analyze unparse_names
          ([example_views_py] @ example_broken_py # [example_urls_py]) django_init)))
     = [(''GET'', CStr ''/products/''), (''POST'', CStr ''/products/''),
        (''GET'', CStr ''/products/{id}/''), (''PUT'', CStr ''/products/{id}/''),
        (''PATCH'', CStr ''/products/{id}/''), (''DELETE'', CStr ''/products/{id}/'')]
   \<and> ''Error extracting views from /srv/shop/broken.py: invalid syntax (<unknown>, line 1)''
       \<in> set (printed (fst (django_analyze unparse_names
          ([example_views_py] @ example_broken_py # [example_urls_py]) django_init)))"
    by simp
  from h ns nu na single multi show ?thesis by blast
qed

text \<open>
  The claim as stated, for every \<open>analyze\<close>, fails in the multi-pass extractor on a
  \<open>urls.py\<close> that does not parse: the file is not skipped, its router registration is
  read by the regular expression, and the six endpoints that \<open>analyze\<close> returns are not
  the endpoints of the other file, which alone gives none.
\<close>

theorem C8_counterexample:
  "parsed example_broken_urls_py = Inl (SyntaxError ''invalid syntax (<unknown>, line 3)'')
   \<and> map (\<lambda>ep. (method ep, path ep))
       (endpoints (fst (django_analyze unparse_names [example_views_py, example_broken_urls_py]
                          django_init)))
     = [(''GET'', CStr ''/products/''), (''POST'', CStr ''/products/''),
        (''GET'', CStr ''/products/{id}/''), (''PUT'', CStr ''/products/{id}/''),
        (''PATCH'', CStr ''/products/{id}/''), (''DELETE'', CStr ''/products/{id}/'')]
   \<and> endpoints (fst (django_analyze unparse_names [example_views_py] django_init)) = []"
  by code_simp

subsection \<open>Status codes and parameters of the synthesized endpoints\<close>



lemma standard_endpoint_fields:
  "function_name (standard_endpoint prefix vs a (m, p)) = a"
  "method (standard_endpoint prefix vs a (m, p)) = m"
  "path (standard_endpoint prefix vs a (m, p)) = CStr p"
  "parameters (standard_endpoint prefix vs a (m, p)) = get_viewset_parameters a"
  "status_code (standard_endpoint prefix vs a (m, p))
     = CInt (if m = ''GET'' then 200 else if m = ''POST'' then 201 else 200)"
  by (simp_all add: standard_endpoint_def split: prod.splits)


lemma standard_loop_member:
  "ep \<in> set (standard_loop prefix vs acts) \<Longrightarrow>
     \<exists>a m p. a \<in> set acts \<and> map_of (action_mappings prefix) a = Some (m, p)
             \<and> ep = standard_endpoint prefix vs a (m, p)"
proof (induction acts)
  case Nil
  then show ?case by simp
next
  case (Cons a acts)
  show ?case
  proof (cases "map_of (action_mappings prefix) a")
    case None
    then show ?thesis using Cons by auto
  next
    case (Some row)
    obtain m p where "row = (m, p)" by (cases row)
    then show ?thesis using Cons Some by auto
  qed
qed

lemma standard_action_endpoints_member:
  "ep \<in> set (standard_action_endpoints prefix vs) \<Longrightarrow>
     \<exists>a m p. map_of (action_mappings prefix) a = Some (m, p)
             \<and> ep = standard_endpoint prefix vs a (m, p)"
  unfolding standard_action_endpoints_def Let_def
  by (drule standard_loop_member) blast

lemma custom_endpoint_fields:
  "function_name (custom_endpoint prefix vs ca m) = ca_name ca"
  "method (custom_endpoint prefix vs ca m) = m"
  "path (custom_endpoint prefix vs ca m)
     = CStr (''/'' @ prefix @ ''/'' @ (if truthy (ca_detail ca) then ''{id}/'' else '''')
             @ ca_name ca @ ''/'')"
  "parameters (custom_endpoint prefix vs ca m) = []"
  "status_code (custom_endpoint prefix vs ca m) = CInt 200"
  by (simp_all add: custom_endpoint_def Let_def split: prod.splits)

lemma custom_methods_loop_member:
  "ep \<in> set (fst (custom_methods_loop prefix vs ca ms)) \<Longrightarrow>
     \<exists>m. ep = custom_endpoint prefix vs ca m"
  by (induction ms) (auto split: sum.splits prod.splits)

lemma custom_actions_loop_member:
  "ep \<in> set (fst (custom_actions_loop prefix vs cas)) \<Longrightarrow>
     \<exists>ca m. ca \<in> set cas \<and> ep = custom_endpoint prefix vs ca m"
proof (induction cas)
  case Nil
  then show ?case by simp
next
  case (Cons ca cas)
  obtain eps err where r: "custom_methods_loop prefix vs ca (ca_methods ca) = (eps, err)"
    by (cases "custom_methods_loop prefix vs ca (ca_methods ca)")
  have first: "ep \<in> set eps \<Longrightarrow> \<exists>m. ep = custom_endpoint prefix vs ca m"
    using custom_methods_loop_member[of ep prefix vs ca "ca_methods ca"] r by simp
  show ?case
  proof (cases err)
    case (Some e)
    then show ?thesis using Cons.prems r first by auto
  next
    case None
    then have "ep \<in> set eps \<or> ep \<in> set (fst (custom_actions_loop prefix vs cas))"
      using Cons.prems r by (auto split: prod.splits)
    then show ?thesis using first Cons.IH by auto
  qed
qed

lemma custom_action_endpoints_member:
  "ep \<in> set (fst (custom_action_endpoints prefix vs)) \<Longrightarrow>
     \<exists>ca m. ca \<in> set (case v_custom_actions vs of None \<Rightarrow> [] | Some cas \<Rightarrow> cas)
            \<and> ep = custom_endpoint prefix vs ca m"
  unfolding custom_action_endpoints_def by (rule custom_actions_loop_member)



subsection \<open>C3: default status code and tags\<close>


lemma example_read_item_endpoint:
  "extract_endpoint_from_function unparse_names example_read_item ''main.py'' =
     Inr (Some \<lparr> path = CStr ''/items/{id}'', method = ''GET'', function_name = ''read_item'',
                 summary = None, description = None,
                 parameters =
                   [\<lparr> name = ''id'', param_type = ''query'', data_type = ''int'',
                       required = True, default = None, description_p = None \<rparr>,
                    \<lparr> name = ''limit'', param_type = ''query'', data_type = ''int'',
                       required = False, default = Some ''10'', description_p = None \<rparr>],
                 request_model = None, response_model = None, tags = [],
                 status_code = CInt 200, file_path = ''main.py'', line_number = 5 \<rparr>)"
  by code_simp

lemma example_product_viewset_endpoints:
  "map (\<lambda>ep. (method ep, path ep, status_code ep))
     (fst (create_viewset_endpoints ''products'' example_product_viewset))
   = [(''GET'', CStr ''/products/'', CInt 200), (''GET'', CStr ''/products/{id}/'', CInt 200)]"
  by code_simp

lemma example_article_viewset_endpoints:
  "map (\<lambda>ep. (function_name ep, method ep, path ep, status_code ep))
     (fst (create_viewset_endpoints ''articles'' example_article_viewset))
   = [(''list'', ''GET'', CStr ''/articles/'', CInt 200),
      (''create'', ''POST'', CStr ''/articles/'', CInt 201),
      (''retrieve'', ''GET'', CStr ''/articles/{id}/'', CInt 200),
      (''update'', ''PUT'', CStr ''/articles/{id}/'', CInt 200),
      (''partial_update'', ''PATCH'', CStr ''/articles/{id}/'', CInt 200),
      (''destroy'', ''DELETE'', CStr ''/articles/{id}/'', CInt 200),
      (''publish'', ''POST'', CStr ''/articles/{id}/publish/'', CInt 200)]"
  by code_simp



subsection \<open>C10: parameters of custom and standard detail actions\<close>

text \<open>
  Claim C10. Every endpoint synthesized for a custom action of a joined viewset has an
  empty parameter list, and its path is \<open>/prefix/{id}/name/\<close> when the action's \<open>detail\<close>
  is truthy (\<open>/prefix/name/\<close> otherwise); every endpoint synthesized for one of the
  standard detail actions \<open>retrieve\<close>, \<open>update\<close>, \<open>partial_update\<close>, \<open>destroy\<close> has exactly
  one parameter, the required path parameter \<open>id\<close> of type \<open>int\<close>.
\<close>

theorem C10_custom_action_parameters_empty:
  "(\<forall>ep\<in>set (fst (custom_action_endpoints prefix vs)).
      parameters ep = []
      \<and> (\<exists>ca\<in>set (case v_custom_actions vs of None \<Rightarrow> [] | Some cas \<Rightarrow> cas).
            function_name ep = ca_name ca
            \<and> path ep = CStr (''/'' @ prefix @ ''/''
                               @ (if truthy (ca_detail ca) then ''{id}/'' else '''')
                               @ ca_name ca @ ''/'')))
   \<and> (\<forall>ep\<in>set (standard_action_endpoints prefix vs).
        function_name ep \<in> set [''retrieve'', ''update'', ''partial_update'', ''destroy'']
        \<longrightarrow> parameters ep
              = [\<lparr> name = ''id'', param_type = ''path'', data_type = ''int'', required = True,
                    default = None, description_p = None \<rparr>])"
proof (intro conjI ballI impI)
  fix ep assume "ep \<in> set (fst (custom_action_endpoints prefix vs))"
  then obtain ca m where ca: "ca \<in> set (case v_custom_actions vs of None \<Rightarrow> [] | Some cas \<Rightarrow> cas)"
    and ep: "ep = custom_endpoint prefix vs ca m"
    using custom_action_endpoints_member by blast
  show "parameters ep = []" using ep by (simp add: custom_endpoint_fields)
  show "\<exists>ca\<in>set (case v_custom_actions vs of None \<Rightarrow> [] | Some cas \<Rightarrow> cas).
            function_name ep = ca_name ca
            \<and> path ep = CStr (''/'' @ prefix @ ''/''
                               @ (if truthy (ca_detail ca) then ''{id}/'' else '''')
                               @ ca_name ca @ ''/'')"
    using ca ep custom_endpoint_fields(1,3) by blast
next
  fix ep assume "ep \<in> set (standard_action_endpoints prefix vs)"
    and d: "function_name ep \<in> set [''retrieve'', ''update'', ''partial_update'', ''destroy'']"
  then obtain a m p where ep: "ep = standard_endpoint prefix vs a (m, p)"
    using standard_action_endpoints_member by blast
  then have "function_name ep = a" "parameters ep = get_viewset_parameters a"
    by (simp_all add: standard_endpoint_fields)
  with d show "parameters ep
              = [\<lparr> name = ''id'', param_type = ''path'', data_type = ''int'', required = True,
                    default = None, description_p = None \<rparr>]"
    by (auto simp: get_viewset_parameters_def)
qed

theorem C10_witness:
  "map (\<lambda>ep. (function_name ep, method ep, path ep, parameters ep))
     (fst (custom_action_endpoints ''articles'' example_article_viewset))
   = [(''publish'', ''POST'', CStr ''/articles/{id}/publish/'', [])]
   \<and> map (\<lambda>ep. (function_name ep, map name (parameters ep)))
       (standard_action_endpoints ''articles'' example_article_viewset)
     = [(''list'', [''page'', ''page_size'']), (''create'', []), (''retrieve'', [''id'']),
        (''update'', [''id'']), (''partial_update'', [''id'']), (''destroy'', [''id''])]"
proof -
  have a: "map (\<lambda>ep. (function_name ep, method ep, path ep, parameters ep))
     (fst (custom_action_endpoints ''articles'' example_article_viewset))
   = [(''publish'', ''POST'', CStr ''/articles/{id}/publish/'', [])]"
    by code_simp
  have b: "map (\<lambda>ep. (function_name ep, map name (parameters ep)))
       (standard_action_endpoints ''articles'' example_article_viewset)
     = [(''list'', [''page'', ''page_size'']), (''create'', []), (''retrieve'', [''id'']),
        (''update'', [''id'']), (''partial_update'', [''id'']), (''destroy'', [''id''])]"
    by code_simp
  from C10_custom_action_parameters_empty[of "''articles''" example_article_viewset] a b
  show ?thesis by simp
qed

subsection \<open>C4: the endpoints of a router registration\<close>

lemma extract_viewset_actions_standard:
  "set (extract_viewset_actions body) \<subseteq> set standard_actions"
  by (induction body rule: extract_viewset_actions.induct) auto

lemma standard_loop_map:
  "set acts \<subseteq> set standard_actions \<Longrightarrow>
   map (\<lambda>ep. (function_name ep, method ep, path ep)) (standard_loop prefix vs acts)
     = map (\<lambda>a. (a,
                 (if a = ''list'' then ''GET'' else if a = ''create'' then ''POST''
                  else if a = ''retrieve'' then ''GET'' else if a = ''update'' then ''PUT''
                  else if a = ''partial_update'' then ''PATCH'' else ''DELETE''),
                 CStr (''/'' @ prefix
                       @ (if a = ''list'' \<or> a = ''create'' then ''/'' else ''/{id}/''))))
         acts"
proof (induction acts)
  case Nil
  then show ?case by simp
next
  case (Cons a acts)
  then have "a \<in> set standard_actions" by simp
  then have "a = ''list'' \<or> a = ''create'' \<or> a = ''retrieve'' \<or> a = ''update''
             \<or> a = ''partial_update'' \<or> a = ''destroy''"
    by (auto simp: standard_actions_def)
  moreover have "map (\<lambda>ep. (function_name ep, method ep, path ep)) (standard_loop prefix vs acts)
     = map (\<lambda>a. (a,
                 (if a = ''list'' then ''GET'' else if a = ''create'' then ''POST''
                  else if a = ''retrieve'' then ''GET'' else if a = ''update'' then ''PUT''
                  else if a = ''partial_update'' then ''PATCH'' else ''DELETE''),
                 CStr (''/'' @ prefix
                       @ (if a = ''list'' \<or> a = ''create'' then ''/'' else ''/{id}/''))))
         acts"
    using Cons by simp
  ultimately show ?case
    by (elim disjE) (simp_all add: action_mappings_def standard_endpoint_fields)
qed

text \<open>
  Claim C4. For a router registration whose target names a viewset recorded by the
  second pass, the join appends the endpoints of the standard actions followed by those
  of the custom actions. The standard ones are, in order, one for each name in the
  list of standard actions discovered in the class body (or, when none was discovered,
  for each of the six names of the table, in the order of the table), with the method
  and the path of the fixed table.
\<close>

theorem C4_router_registration_endpoints:
  assumes "views target = Some (extract_viewset cname body line doc src)"
  shows "fst (pattern_endpoints views (Router prefix target urls_file))
           = standard_action_endpoints prefix (extract_viewset cname body line doc src)
             @ fst (custom_action_endpoints prefix (extract_viewset cname body line doc src))
         \<and> map (\<lambda>ep. (function_name ep, method ep, path ep))
             (standard_action_endpoints prefix (extract_viewset cname body line doc src))
           = map (\<lambda>a. (a,
                       (if a = ''list'' then ''GET'' else if a = ''create'' then ''POST''
                        else if a = ''retrieve'' then ''GET'' else if a = ''update'' then ''PUT''
                        else if a = ''partial_update'' then ''PATCH'' else ''DELETE''),
                       CStr (''/'' @ prefix
                             @ (if a = ''list'' \<or> a = ''create'' then ''/'' else ''/{id}/''))))
               (if extract_viewset_actions body = []
                then [''list'', ''create'', ''retrieve'', ''update'', ''partial_update'', ''destroy'']
                else extract_viewset_actions body)"
proof
  show "fst (pattern_endpoints views (Router prefix target urls_file))
           = standard_action_endpoints prefix (extract_viewset cname body line doc src)
             @ fst (custom_action_endpoints prefix (extract_viewset cname body line doc src))"
    using assms by (simp add: create_viewset_endpoints_def split: prod.splits)
next
  let ?acts = "(if extract_viewset_actions body = []
                then [''list'', ''create'', ''retrieve'', ''update'', ''partial_update'', ''destroy'']
                else extract_viewset_actions body)"
  have sub: "set ?acts \<subseteq> set standard_actions"
    using extract_viewset_actions_standard[of body] by (auto simp: standard_actions_def)
  have "standard_action_endpoints prefix (extract_viewset cname body line doc src)
          = standard_loop prefix (extract_viewset cname body line doc src) ?acts"
    by (simp add: standard_action_endpoints_def extract_viewset_def action_mappings_def Let_def)
  then show "map (\<lambda>ep. (function_name ep, method ep, path ep))
             (standard_action_endpoints prefix (extract_viewset cname body line doc src))
           = map (\<lambda>a. (a,
                       (if a = ''list'' then ''GET'' else if a = ''create'' then ''POST''
                        else if a = ''retrieve'' then ''GET'' else if a = ''update'' then ''PUT''
                        else if a = ''partial_update'' then ''PATCH'' else ''DELETE''),
                       CStr (''/'' @ prefix
                             @ (if a = ''list'' \<or> a = ''create'' then ''/'' else ''/{id}/''))))
               ?acts"
    using standard_loop_map[OF sub] by simp
qed

theorem C4_witness:
  "[''ProductViewSet'' \<mapsto> example_product_viewset] ''ProductViewSet''
     = Some example_product_viewset
   \<and> map (\<lambda>ep. (function_name ep, method ep, path ep))
       (fst (pattern_endpoints [''ProductViewSet'' \<mapsto> example_product_viewset]
               (Router ''products'' ''ProductViewSet'' ''urls.py'')))
     = [(''list'', ''GET'', CStr ''/products/''), (''retrieve'', ''GET'', CStr ''/products/{id}/'')]"
proof -
  have h: "[''ProductViewSet'' \<mapsto> example_product_viewset] ''ProductViewSet''
     = Some example_product_viewset" by simp
  have e: "map (\<lambda>ep. (function_name ep, method ep, path ep))
       (fst (pattern_endpoints [''ProductViewSet'' \<mapsto> example_product_viewset]
               (Router ''products'' ''ProductViewSet'' ''urls.py'')))
     = [(''list'', ''GET'', CStr ''/products/''), (''retrieve'', ''GET'', CStr ''/products/{id}/'')]"
    by code_simp
  have h': "[''ProductViewSet'' \<mapsto> example_product_viewset] ''ProductViewSet''
     = Some (extract_viewset ''ProductViewSet'' example_product_body 4 None example_views_py)"
    by (simp add: example_product_viewset_def)
  from C4_router_registration_endpoints[
      where views = "[''ProductViewSet'' \<mapsto> example_product_viewset]"
        and target = "''ProductViewSet''" and prefix = "''products''" and urls_file = "''urls.py''",
      OF h'] h e
  show ?thesis by simp
qed

subsection \<open>C7: a URL declaration without a recorded view\<close>

lemma patterns_loop_unmatched:
  assumes "pattern_endpoints (viewsets s) p = ([], None)"
  shows "patterns_loop (pre @ p # post) s = patterns_loop (pre @ post) s"
  using assms
proof (induction pre arbitrary: s)
  case Nil
  then show ?case by simp
next
  case (Cons x pre)
  obtain eps err where r: "pattern_endpoints (viewsets s) x = (eps, err)"
    by (cases "pattern_endpoints (viewsets s) x")
  show ?case
  proof (cases err)
    case (Some e)
    then show ?thesis using r by simp
  next
    case None
    have "pattern_endpoints (viewsets (s\<lparr>endpoints := endpoints s @ eps\<rparr>)) p = ([], None)"
      using Cons.prems by simp
    from Cons.IH[OF this] show ?thesis using r None by simp
  qed
qed

text \<open>
  Claim C7. A URL declaration (a router registration or a path declaration) whose target
  name is not a key of the recorded views makes the join append no endpoint and raise
  nothing, and the join over a list of declarations that holds it gives the same
  endpoints, and the same outcome, as the join over the list without it.
\<close>

theorem C7_unmatched_declaration_dropped:
  assumes "viewsets s target = None"
    and "p = Router prefix target urls_file \<or> p = Path pth target urls_file"
  shows "pattern_endpoints (viewsets s) p = ([], None)
         \<and> patterns_loop (pre @ p # post) s = patterns_loop (pre @ post) s"
proof -
  have "pattern_endpoints (viewsets s) p = ([], None)"
    using assms by auto
  then show ?thesis using patterns_loop_unmatched by blast
qed

theorem C7_witness:
  "viewsets (django_init\<lparr>viewsets := [''ProductViewSet'' \<mapsto> example_product_viewset]\<rparr>)
     ''OrderViewSet'' = None
   \<and> map (\<lambda>ep. (method ep, path ep))
       (endpoints (fst (patterns_loop
          ([Router ''products'' ''ProductViewSet'' ''urls.py'']
             @ Router ''orders'' ''OrderViewSet'' ''urls.py''
             # [Path ''health/'' ''health_check'' ''urls.py''])
          (django_init\<lparr>viewsets := [''ProductViewSet'' \<mapsto> example_product_viewset]\<rparr>))))
     = [(''GET'', CStr ''/products/''), (''GET'', CStr ''/products/{id}/'')]
   \<and> snd (patterns_loop
          ([Router ''products'' ''ProductViewSet'' ''urls.py'']
             @ Router ''orders'' ''OrderViewSet'' ''urls.py''
             # [Path ''health/'' ''health_check'' ''urls.py''])
          (django_init\<lparr>viewsets := [''ProductViewSet'' \<mapsto> example_product_viewset]\<rparr>))
     = None"
proof -
  let ?s = "django_init\<lparr>viewsets := [''ProductViewSet'' \<mapsto> example_product_viewset]\<rparr>"
  have h: "viewsets ?s ''OrderViewSet'' = None" by simp
  have e: "map (\<lambda>ep. (method ep, path ep))
       (endpoints (fst (patterns_loop
          ([Router ''products'' ''ProductViewSet'' ''urls.py'']
             @ [Path ''health/'' ''health_check'' ''urls.py'']) ?s)))
     = [(''GET'', CStr ''/products/''), (''GET'', CStr ''/products/{id}/'')]
     \<and> snd (patterns_loop
          ([Router ''products'' ''ProductViewSet'' ''urls.py'']
             @ [Path ''health/'' ''health_check'' ''urls.py'']) ?s) = None"
    by code_simp
  from C7_unmatched_declaration_dropped[OF h, of "Router ''orders'' ''OrderViewSet'' ''urls.py''"
      "''orders''" "''urls.py''" "''x''" "[Router ''products'' ''ProductViewSet'' ''urls.py'']"
      "[Path ''health/'' ''health_check'' ''urls.py'']"] h e
  show ?thesis by simp
qed

subsection \<open>C1: calling analyze twice\<close>

text \<open>
  Claim C1, evaluated on the multi-pass extractor. \<open>analyze\<close> empties \<open>self.endpoints\<close>
  but not \<open>self.url_patterns\<close>, to which the third pass appends: on the Django project
  of \<open>views.py\<close> and \<open>urls.py\<close> above, a first call on a new analyzer returns the six
  endpoints of the viewset, and a second call on the same analyzer, the files unchanged,
  returns twelve, each of the six twice. (For the single-pass extractor the two calls
  return the same sequence: \<open>fastapi_analyze_idempotent\<close>.)
\<close>

theorem C1_django_second_call_differs:
  "map (\<lambda>ep. (method ep, path ep))
     (endpoints (fst (django_analyze unparse_names [example_views_py, example_urls_py]
                        django_init)))
   = [(''GET'', CStr ''/products/''), (''POST'', CStr ''/products/''),
      (''GET'', CStr ''/products/{id}/''), (''PUT'', CStr ''/products/{id}/''),
      (''PATCH'', CStr ''/products/{id}/''), (''DELETE'', CStr ''/products/{id}/'')]
   \<and> map (\<lambda>ep. (method ep, path ep))
       (endpoints (fst (django_analyze unparse_names [example_views_py, example_urls_py]
          (fst (django_analyze unparse_names [example_views_py, example_urls_py]
                  django_init)))))
   = [(''GET'', CStr ''/products/''), (''POST'', CStr ''/products/''),
      (''GET'', CStr ''/products/{id}/''), (''PUT'', CStr ''/products/{id}/''),
      (''PATCH'', CStr ''/products/{id}/''), (''DELETE'', CStr ''/products/{id}/''),
      (''GET'', CStr ''/products/''), (''POST'', CStr ''/products/''),
      (''GET'', CStr ''/products/{id}/''), (''PUT'', CStr ''/products/{id}/''),
      (''PATCH'', CStr ''/products/{id}/''), (''DELETE'', CStr ''/products/{id}/'')]"
  by code_simp

subsection \<open>C9: the framework detector\<close>

lemma scan_files_iff:
  "scan_files p pattern fs
     = (\<exists>f\<in>set fs. \<exists>content. read_text p f = Inr content \<and> pattern content)"
  by (induction fs) (auto split: sum.splits)

lemma settings_loop_cases:
  "settings_loop p settings_patterns =
     (case glob p ''**/settings.py'' of
        Inl e \<Rightarrow> Inl e
      | Inr g1 \<Rightarrow>
          if g1 \<noteq> [] then Inr True
          else (case glob p ''**/settings/*.py'' of
                  Inl e \<Rightarrow> Inl e
                | Inr g2 \<Rightarrow> Inr (g2 \<noteq> [])))"
  by (simp add: settings_patterns_def split: sum.splits)

lemma is_fastapi_after_django:
  "glob p ''**/*.py'' = Inr files \<Longrightarrow> \<exists>b. is_fastapi_project p = Inr b"
  by (simp add: is_fastapi_project_def)

text \<open>
  Claim C9, as amended. Whenever \<open>detect_framework\<close> returns, it returns \<open>django\<close> or
  \<open>fastapi\<close>. It checks in priority order: \<open>django\<close> if \<open>manage.py\<close> exists at the root,
  no further call being made; else \<open>django\<close> if the glob \<open>**/settings.py\<close>, and then the
  glob \<open>**/settings/*.py\<close>, yields a path; else \<open>django\<close> if one of the first twenty
  files of the glob \<open>**/*.py\<close> can be read and its text matches the Django import
  pattern; otherwise \<open>fastapi\<close>, whatever the FastAPI import scan finds. It raises
  exactly when one of the calls of \<open>exists\<close> and \<open>glob\<close> that it reaches raises, with that
  exception.
\<close>

theorem C9_detect_framework_when_calls_return:
  "(\<forall>r. detect_framework p = Inr r \<longrightarrow> r = ''django'' \<or> r = ''fastapi'')
   \<and> (manage_py_exists p = Inr True \<longrightarrow> detect_framework p = Inr ''django'')
   \<and> (manage_py_exists p = Inr False \<and> glob p ''**/settings.py'' = Inr g1 \<and> g1 \<noteq> []
        \<longrightarrow> detect_framework p = Inr ''django'')
   \<and> (manage_py_exists p = Inr False \<and> glob p ''**/settings.py'' = Inr []
        \<and> glob p ''**/settings/*.py'' = Inr g2 \<and> g2 \<noteq> []
        \<longrightarrow> detect_framework p = Inr ''django'')
   \<and> (manage_py_exists p = Inr False \<and> glob p ''**/settings.py'' = Inr []
        \<and> glob p ''**/settings/*.py'' = Inr [] \<and> glob p ''**/*.py'' = Inr files
        \<longrightarrow> detect_framework p
              = Inr (if (\<exists>f\<in>set (take 20 files).
                          \<exists>content. read_text p f = Inr content \<and> django_import_pattern content)
                     then ''django'' else ''fastapi''))
   \<and> (detect_framework p = Inl e)
       = (manage_py_exists p = Inl e
          \<or> (manage_py_exists p = Inr False
              \<and> (glob p ''**/settings.py'' = Inl e
                  \<or> (glob p ''**/settings.py'' = Inr []
                      \<and> (glob p ''**/settings/*.py'' = Inl e
                          \<or> (glob p ''**/settings/*.py'' = Inr []
                              \<and> glob p ''**/*.py'' = Inl e))))))"
proof (intro conjI allI impI)
  fix r assume "detect_framework p = Inr r"
  then show "r = ''django'' \<or> r = ''fastapi''"
    by (auto simp: detect_framework_def split: sum.splits if_splits)
next
  assume "manage_py_exists p = Inr True"
  then show "detect_framework p = Inr ''django''"
    by (simp add: detect_framework_def is_django_project_def)
next
  assume "manage_py_exists p = Inr False \<and> glob p ''**/settings.py'' = Inr g1 \<and> g1 \<noteq> []"
  then show "detect_framework p = Inr ''django''"
    by (simp add: detect_framework_def is_django_project_def settings_loop_cases)
next
  assume "manage_py_exists p = Inr False \<and> glob p ''**/settings.py'' = Inr []
        \<and> glob p ''**/settings/*.py'' = Inr g2 \<and> g2 \<noteq> []"
  then show "detect_framework p = Inr ''django''"
    by (simp add: detect_framework_def is_django_project_def settings_loop_cases)
next
  assume "manage_py_exists p = Inr False \<and> glob p ''**/settings.py'' = Inr []
        \<and> glob p ''**/settings/*.py'' = Inr [] \<and> glob p ''**/*.py'' = Inr files"
  then show "detect_framework p
              = Inr (if (\<exists>f\<in>set (take 20 files).
                          \<exists>content. read_text p f = Inr content \<and> django_import_pattern content)
                     then ''django'' else ''fastapi'')"
    by (simp add: detect_framework_def is_django_project_def settings_loop_cases
        is_fastapi_project_def scan_files_iff)
next
  show "(detect_framework p = Inl e)
       = (manage_py_exists p = Inl e
          \<or> (manage_py_exists p = Inr False
              \<and> (glob p ''**/settings.py'' = Inl e
                  \<or> (glob p ''**/settings.py'' = Inr []
                      \<and> (glob p ''**/settings/*.py'' = Inl e
                          \<or> (glob p ''**/settings/*.py'' = Inr []
                              \<and> glob p ''**/*.py'' = Inl e))))))"
    by (auto simp: detect_framework_def is_django_project_def settings_loop_cases
        is_fastapi_project_def split: sum.splits if_splits)
qed

theorem C9_witness:
  "manage_py_exists example_sampled_project = Inr False
   \<and> glob example_sampled_project ''**/settings.py'' = Inr []
   \<and> glob example_sampled_project ''**/settings/*.py'' = Inr []
   \<and> map_sum id length (glob example_sampled_project ''**/*.py'') = Inr 21
   \<and> read_text example_sampled_project ''models.py'' = Inr ''from django.db import models''
   \<and> django_import_pattern ''from django.db import models''
   \<and> detect_framework example_sampled_project = Inr ''fastapi''
   \<and> detect_framework example_sampled_project
       = Inr (if (\<exists>f\<in>set (take 20 (map (\<lambda>i. ''m'' @ str_nat i @ ''.py'') [0..<20]
                                       @ [''models.py''])).
                   \<exists>content. read_text example_sampled_project f = Inr content
                      \<and> django_import_pattern content)
              then ''django'' else ''fastapi'')"
proof -
  have m: "manage_py_exists example_sampled_project = Inr False" by code_simp
  have g1: "glob example_sampled_project ''**/settings.py'' = Inr []" by code_simp
  have g2: "glob example_sampled_project ''**/settings/*.py'' = Inr []" by code_simp
  have g3: "glob example_sampled_project ''**/*.py''
              = Inr (map (\<lambda>i. ''m'' @ str_nat i @ ''.py'') [0..<20] @ [''models.py''])"
    by code_simp
  have n: "map_sum id length (glob example_sampled_project ''**/*.py'') = Inr 21"
    by code_simp
  have r: "read_text example_sampled_project ''models.py'' = Inr ''from django.db import models''"
    by code_simp
  have d: "django_import_pattern ''from django.db import models''" by code_simp
  have v: "detect_framework example_sampled_project = Inr ''fastapi''" by code_simp
  have t: "detect_framework example_sampled_project
       = Inr (if (\<exists>f\<in>set (take 20 (map (\<lambda>i. ''m'' @ str_nat i @ ''.py'') [0..<20]
                                       @ [''models.py''])).
                   \<exists>content. read_text example_sampled_project f = Inr content
                      \<and> django_import_pattern content)
              then ''django'' else ''fastapi'')"
    using C9_detect_framework_when_calls_return[of example_sampled_project _ _
      "map (\<lambda>i. ''m'' @ str_nat i @ ''.py'') [0..<20] @ [''models.py'']"] m g1 g2 g3
    by blast
  show ?thesis
    by (intro conjI) (rule m g1 g2 n r d v t)+
qed

text \<open>
  The claim as stated (\<open>detect_framework\<close> never fails) is false for a project root
  that cannot be searched: the first call, \<open>exists\<close> on \<open>manage.py\<close>, raises, and the
  exception leaves \<open>detect_framework\<close>.
\<close>

theorem C9_counterexample:
  "detect_framework example_unsearchable_project
     = Inl (OSError ''[Errno 13] Permission denied'')"
  by code_simp

end
